theory Spec2Isabelle
  imports Complex_Main "HOL-Library.Multiset" "HOL-Library.Char_ord" "HOL-Library.List_Lexorder"
begin

section \<open>Values shared by the components\<close>

text \<open>
  A JavaScript slot that may hold \<open>undefined\<close>, \<open>null\<close> or a value. The source
  distinguishes the two empty cases (\<open>ref.district === null\<close> is false for
  \<open>undefined\<close>), so the model keeps both.
\<close>

datatype 'a nullable = Undefined | Null | Val 'a

text \<open>Truthiness of an optional numeric argument: \<open>undefined\<close> and \<open>0\<close> are falsy.\<close>

fun truthy_number :: "int option \<Rightarrow> bool" where
  "truthy_number None = False"
| "truthy_number (Some n) = (n \<noteq> 0)"

section \<open>Route guard (components/layout/ProtectedRoute.tsx, contexts/AuthContext.tsx)\<close>

datatype role = gov_admin | retailer | farmer

record User =
  user_id :: int
  user_role :: role

record AuthContextType =
  user :: "User option"
  isLoading :: bool
  isAuthenticated :: bool

text \<open>The value \<open>AuthProvider\<close> hands to \<open>useAuth\<close>: \<open>isAuthenticated = !!user\<close>.\<close>

definition AuthProvider_value :: "User option \<Rightarrow> bool \<Rightarrow> AuthContextType" where
  "AuthProvider_value u loading =
     \<lparr>user = u, isLoading = loading, isAuthenticated = (u \<noteq> None)\<rparr>"

text \<open>
  The effect of \<open>ProtectedRoute\<close>: the path given to \<open>router.push\<close>, or \<open>None\<close> when the
  effect pushes nothing.
\<close>

definition ProtectedRoute_effect :: "AuthContextType \<Rightarrow> role list \<Rightarrow> string option" where
  "ProtectedRoute_effect ctx allowedRoles =
     (if \<not> isLoading ctx then
        (if \<not> isAuthenticated ctx then Some ''/login''
         else
           (case user ctx of
              Some u \<Rightarrow>
                (if user_role u \<notin> set allowedRoles then
                   (if user_role u = gov_admin then Some ''/dashboard/admin''
                    else if user_role u = retailer then Some ''/dashboard/retailer''
                    else if user_role u = farmer then Some ''/dashboard/farmer''
                    else None)
                 else None)
            | None \<Rightarrow> None))
      else None)"

datatype rendered = Spinner | Nothing | Children

definition ProtectedRoute_render :: "AuthContextType \<Rightarrow> role list \<Rightarrow> rendered" where
  "ProtectedRoute_render ctx allowedRoles =
     (if isLoading ctx then Spinner
      else if \<not> isAuthenticated ctx then Nothing
      else if (case user ctx of Some u \<Rightarrow> user_role u \<notin> set allowedRoles | None \<Rightarrow> False)
        then Nothing
      else Children)"

text \<open>The dashboard of a role, as the claim lists them.\<close>

fun dashboard_of :: "role \<Rightarrow> string" where
  "dashboard_of gov_admin = ''/dashboard/admin''"
| "dashboard_of retailer = ''/dashboard/retailer''"
| "dashboard_of farmer = ''/dashboard/farmer''"

section \<open>Complaint statuses (types/index.ts, components/admin/ComplaintManagement.tsx)\<close>










section \<open>Reference prices (PriceManagement, getReferencePrice)\<close>

record SKU =
  sku_id :: int
  sku_name :: string

record District =
  district_id :: int
  district_name :: string

record ReferencePrice =
  ref_id :: int
  ref_sku :: SKU
  ref_district :: "District nullable"
  ref_price :: rat

text \<open>\<open>ref.district?.id\<close>: the id of the district, \<open>undefined\<close> when there is none.\<close>

fun optional_district_id :: "District nullable \<Rightarrow> int option" where
  "optional_district_id (Val d) = Some (district_id d)"
| "optional_district_id _ = None"

text \<open>
  \<open>getReferencePrice\<close>. The first argument is \<open>referencePrices?.data.results\<close>, \<open>None\<close>
  while the query has no data; the result is \<open>Null\<close> on that early return,
  \<open>Undefined\<close> when \<open>find\<close> finds nothing.
\<close>

definition getReferencePrice ::
  "ReferencePrice list option \<Rightarrow> int \<Rightarrow> int option \<Rightarrow> ReferencePrice nullable" where
  "getReferencePrice results skuId districtId =
     (case results of
        None \<Rightarrow> Null
      | Some refs \<Rightarrow>
          (case (if truthy_number districtId
                 then find (\<lambda>r. sku_id (ref_sku r) = skuId
                              \<and> optional_district_id (ref_district r) = districtId) refs
                 else None) of
             Some districtSpecific \<Rightarrow> Val districtSpecific
           | None \<Rightarrow>
               (case find (\<lambda>r. sku_id (ref_sku r) = skuId \<and> ref_district r = Null) refs of
                  Some global \<Rightarrow> Val global
                | None \<Rightarrow> Undefined)))"

text \<open>The two searches the claim speaks of, each the first match in list order.\<close>

definition district_scoped :: "ReferencePrice list \<Rightarrow> int \<Rightarrow> int \<Rightarrow> ReferencePrice option" where
  "district_scoped refs skuId d =
     find (\<lambda>r. sku_id (ref_sku r) = skuId \<and> optional_district_id (ref_district r) = Some d) refs"

definition global_price :: "ReferencePrice list \<Rightarrow> int \<Rightarrow> ReferencePrice option" where
  "global_price refs skuId =
     find (\<lambda>r. sku_id (ref_sku r) = skuId \<and> ref_district r = Null) refs"

section \<open>API client (lib/api.ts)\<close>

text \<open>
  A request configuration as the interceptors see it: the \<open>Authorization\<close> header and
  the \<open>_retry\<close> flag are the two parts they write.
\<close>

datatype payload = NoData | RefreshData string | OtherData string

record config =
  cfg_method :: string
  cfg_url :: string
  cfg_data :: payload
  cfg_authorization :: "string option"
  cfg_retry :: bool

text \<open>
  A response body either carries a token pair (\<open>response.data.tokens\<close>) or does not.
  The server answers with a status and a body, or not at all (\<open>error.response\<close> is then
  undefined).
\<close>

datatype body = TokensBody string string | DataBody string

datatype reply = NetworkError | Response nat body

record AxiosError =
  err_config :: config
  err_response :: "(nat \<times> body) option"

datatype outcome = Resolved nat body config | Rejected AxiosError

text \<open>
  The browser: the two \<open>localStorage\<close> items, \<open>window.location.href\<close>, and the log
  of the requests that have gone out.
\<close>

record browser =
  access_token :: "string option"
  refresh_token :: "string option"
  href :: string
  sent :: "config list"

text \<open>The server decides its reply from the requests received so far, the last one included.\<close>

type_synonym server = "config list \<Rightarrow> reply"

text \<open>\<open>if (token)\<close>: \<open>null\<close> and the empty string are falsy.\<close>

fun truthy_string :: "string option \<Rightarrow> bool" where
  "truthy_string None = False"
| "truthy_string (Some s) = (s \<noteq> [])"

definition request_interceptor :: "browser \<Rightarrow> config \<Rightarrow> config" where
  "request_interceptor w cfg =
     (case access_token w of
        Some token \<Rightarrow>
          (if truthy_string (Some token)
           then cfg\<lparr>cfg_authorization := Some (''Bearer '' @ token)\<rparr>
           else cfg)
      | None \<Rightarrow> cfg)"

definition setTokens :: "string \<Rightarrow> string \<Rightarrow> browser \<Rightarrow> browser" where
  "setTokens a r w = w\<lparr>access_token := Some a, refresh_token := Some r\<rparr>"

definition clearTokens :: "browser \<Rightarrow> browser" where
  "clearTokens w = w\<lparr>access_token := None, refresh_token := None\<rparr>"

text \<open>The request of \<open>refreshToken\<close>: \<open>this.client.post('/token/refresh/', { refresh })\<close>.\<close>

definition refresh_request :: "string \<Rightarrow> config" where
  "refresh_request t =
     \<lparr>cfg_method = ''post'', cfg_url = ''/token/refresh/'', cfg_data = RefreshData t,
      cfg_authorization = None, cfg_retry = False\<rparr>"

text \<open>
  \<open>client\<close> is one call of the axios instance: the request interceptor, the exchange
  with the server, then the response interceptor, whose error handler is
  \<open>response_rejected\<close>. The handler calls \<open>refreshToken\<close>, which goes through the same
  instance, and may re-send the original request through it; the first argument bounds
  the number of nested calls, and \<open>None\<close> for the outcome says that the bound was
  reached before the promise settled. A 2xx status resolves, any other rejects.
\<close>

fun client :: "nat \<Rightarrow> server \<Rightarrow> config \<Rightarrow> browser \<Rightarrow> outcome option \<times> browser"
and response_rejected ::
  "nat \<Rightarrow> server \<Rightarrow> AxiosError \<Rightarrow> browser \<Rightarrow> outcome option \<times> browser"
where
  "client 0 srv cfg w = (None, w)"
| "client (Suc n) srv cfg w =
     (let cfg1 = request_interceptor w cfg;
          w1 = w\<lparr>sent := sent w @ [cfg1]\<rparr>
      in case srv (sent w1) of
           Response st b \<Rightarrow>
             (if 200 \<le> st \<and> st < 300 then (Some (Resolved st b cfg1), w1)
              else response_rejected n srv
                     \<lparr>err_config = cfg1, err_response = Some (st, b)\<rparr> w1)
         | NetworkError \<Rightarrow>
             response_rejected n srv \<lparr>err_config = cfg1, err_response = None\<rparr> w1)"
| "response_rejected n srv error w =
     (if map_option fst (err_response error) = Some 401 \<and> \<not> cfg_retry (err_config error) then
        (let originalRequest = (err_config error)\<lparr>cfg_retry := True\<rparr>;
             error1 = error\<lparr>err_config := originalRequest\<rparr>
         in case refresh_token w of
              Some refreshToken \<Rightarrow>
                (if truthy_string (Some refreshToken) then
                   (case client n srv (refresh_request refreshToken) w of
                      (None, w2) \<Rightarrow> (None, w2)
                    | (Some (Resolved st b c), w2) \<Rightarrow>
                        (case b of
                           TokensBody a r \<Rightarrow>
                             client n srv
                               (originalRequest\<lparr>cfg_authorization := Some (''Bearer '' @ a)\<rparr>)
                               (setTokens a r w2)
                         | DataBody d \<Rightarrow>
                             (Some (Rejected error1), (clearTokens w2)\<lparr>href := ''/login''\<rparr>))
                    | (Some (Rejected refreshError), w2) \<Rightarrow>
                        (Some (Rejected error1), (clearTokens w2)\<lparr>href := ''/login''\<rparr>))
                 else (Some (Rejected error1), w))
            | None \<Rightarrow> (Some (Rejected error1), w))
      else (Some (Rejected error), w))"

text \<open>A request of the client, \<open>getProfile\<close>, and a browser that holds both tokens.\<close>

definition getProfile :: config where
  "getProfile =
     \<lparr>cfg_method = ''get'', cfg_url = ''/auth/profile/'', cfg_data = NoData,
      cfg_authorization = None, cfg_retry = False\<rparr>"

definition signed_in_browser :: browser where
  "signed_in_browser =
     \<lparr>access_token = Some ''a0'', refresh_token = Some ''r0'',
      href = ''/dashboard/farmer'', sent = []\<rparr>"

text \<open>A server that rejects every request with 401, the refresh requests included.\<close>

definition always_401 :: server where
  "always_401 received = Response 401 (DataBody ''token_not_valid'')"

text \<open>
  A server whose access token has expired and whose refresh endpoint works: 401 to the
  first request, a new token pair to the second, the data to the third.
\<close>

definition expired_then_refreshed :: server where
  "expired_then_refreshed received =
     (if length received = 1 then Response 401 (DataBody ''expired'')
      else if length received = 2 then Response 200 (TokensBody ''a1'' ''r1'')
      else Response 200 (DataBody ''profile''))"

text \<open>A reply that axios rejects.\<close>

fun failed :: "reply \<Rightarrow> bool" where
  "failed NetworkError = True"
| "failed (Response st b) = (\<not> (200 \<le> st \<and> st < 300))"

fun reply_response :: "reply \<Rightarrow> (nat \<times> body) option" where
  "reply_response NetworkError = None"
| "reply_response (Response st b) = Some (st, b)"

text \<open>
  The outcome axios gives a reply when no handler intervenes: resolved for 2xx,
  rejected with the reply otherwise.
\<close>

definition settle :: "config \<Rightarrow> reply \<Rightarrow> outcome" where
  "settle cfg r =
     (case r of
        Response st b \<Rightarrow>
          (if 200 \<le> st \<and> st < 300 then Resolved st b cfg
           else Rejected \<lparr>err_config = cfg, err_response = Some (st, b)\<rparr>)
      | NetworkError \<Rightarrow> Rejected \<lparr>err_config = cfg, err_response = None\<rparr>)"


section \<open>Price management (PriceManagement, CompliancePage)\<close>

record PublishedPrice =
  pp_id :: int
  pp_sku :: SKU
  pp_district :: District
  pp_price :: rat
  compliant :: bool
  markup_percentage :: rat

subsection \<open>The form and its submission\<close>

text \<open>
  A form value as \<open>handleSubmit\<close> passes it on: a string read from an input, a number
  put there by \<open>reset\<close>, or \<open>undefined\<close> for a field never touched.
\<close>

datatype formval = FUndefined | FString string | FNumber rat

record form_data =
  fd_sku_id :: formval
  fd_district_id :: formval
  fd_price :: formval

definition empty_form :: form_data where
  "empty_form = \<lparr>fd_sku_id = FUndefined, fd_district_id = FUndefined, fd_price = FUndefined\<rparr>"

text \<open>
  The data sent to the server. A number that may be \<open>NaN\<close> is an option, \<open>None\<close> for
  \<open>NaN\<close>; the district is moreover \<open>undefined\<close> when it is not given.
\<close>

record PriceFormData =
  p_sku_id :: "int option"
  p_price :: "rat option"
  p_district_id :: "int option option"

datatype api_call =
    createPublishedPrice PriceFormData
  | updatePublishedPrice int PriceFormData
  | deletePublishedPrice int

record form_errors =
  err_sku_id :: "string option"
  err_price :: "string option"

record pm_state =
  isCreateModalOpen :: bool
  editingPrice :: "PublishedPrice option"
  error_message :: string
  form_values :: form_data
  formState_errors :: form_errors
  pending_timers :: "PublishedPrice list"
  api_calls :: "api_call list"

text \<open>
  The built-in conversions are parameters of the model: \<open>parseInt\<close> and \<open>parseFloat\<close>
  on strings, the string of a number, and the number of a string (\<open>+inputValue\<close>), each
  with \<open>None\<close> for \<open>NaN\<close>.
\<close>

record builtins =
  parseInt :: "string \<Rightarrow> int option"
  parseFloat :: "string \<Rightarrow> rat option"
  numberToString :: "rat \<Rightarrow> string"
  stringToNumber :: "string \<Rightarrow> rat option"

datatype js_error = TypeError

text \<open>\<open>value.toString()\<close>: a type error on \<open>undefined\<close>.\<close>

fun toString :: "builtins \<Rightarrow> formval \<Rightarrow> js_error + string" where
  "toString js FUndefined = Inl TypeError"
| "toString js (FString s) = Inr s"
| "toString js (FNumber x) = Inr (numberToString js x)"

fun truthy :: "formval \<Rightarrow> bool" where
  "truthy FUndefined = False"
| "truthy (FString s) = (s \<noteq> [])"
| "truthy (FNumber x) = (x \<noteq> 0)"

text \<open>
  The rules given to \<open>register\<close>, as react-hook-form applies them: \<open>required\<close> fails on
  an empty value (\<open>undefined\<close> or the empty string); \<open>min\<close> is checked on a non-empty
  value that is a number, and fails when the number is below the bound.
\<close>

fun is_empty :: "formval \<Rightarrow> bool" where
  "is_empty FUndefined = True"
| "is_empty (FString s) = (s = [])"
| "is_empty (FNumber x) = False"

fun valueNumber :: "builtins \<Rightarrow> formval \<Rightarrow> rat option" where
  "valueNumber js FUndefined = None"
| "valueNumber js (FString s) = stringToNumber js s"
| "valueNumber js (FNumber x) = Some x"

definition validate_sku_id :: "formval \<Rightarrow> string option" where
  "validate_sku_id v = (if is_empty v then Some ''Please select a product'' else None)"

definition validate_price :: "builtins \<Rightarrow> formval \<Rightarrow> string option" where
  "validate_price js v =
     (if is_empty v then Some ''Price is required''
      else (case valueNumber js v of
              Some x \<Rightarrow> (if x < 1 / 100 then Some ''Price must be greater than 0'' else None)
            | None \<Rightarrow> None))"

definition validate :: "builtins \<Rightarrow> form_data \<Rightarrow> form_errors" where
  "validate js data =
     \<lparr>err_sku_id = validate_sku_id (fd_sku_id data),
      err_price = validate_price js (fd_price data)\<rparr>"

definition no_errors :: form_errors where
  "no_errors = \<lparr>err_sku_id = None, err_price = None\<rparr>"

text \<open>The \<open>processedData\<close> of \<open>onSubmit\<close>, its three conversions in source order.\<close>

definition processedData :: "builtins \<Rightarrow> form_data \<Rightarrow> js_error + PriceFormData" where
  "processedData js data =
     (case toString js (fd_sku_id data) of
        Inl e \<Rightarrow> Inl e
      | Inr sku \<Rightarrow>
          (case toString js (fd_price data) of
             Inl e \<Rightarrow> Inl e
           | Inr price \<Rightarrow>
               (case (if truthy (fd_district_id data)
                      then map_sum id (\<lambda>d. Some (parseInt js d)) (toString js (fd_district_id data))
                      else Inr None) of
                  Inl e \<Rightarrow> Inl e
                | Inr district \<Rightarrow>
                    Inr \<lparr>p_sku_id = parseInt js sku, p_price = parseFloat js price,
                         p_district_id = district\<rparr>)))"

definition onSubmit :: "builtins \<Rightarrow> form_data \<Rightarrow> pm_state \<Rightarrow> js_error + pm_state" where
  "onSubmit js data s =
     (case processedData js data of
        Inl e \<Rightarrow> Inl e
      | Inr processed \<Rightarrow>
          (case editingPrice s of
             Some editing \<Rightarrow>
               Inr (s\<lparr>api_calls := api_calls s @ [updatePublishedPrice (pp_id editing) processed]\<rparr>)
           | None \<Rightarrow>
               Inr (s\<lparr>api_calls := api_calls s @ [createPublishedPrice processed]\<rparr>)))"

text \<open>
  \<open>handleSubmit(onSubmit)\<close> on the current form values: the callback runs only when
  no rule fails; otherwise the errors are shown and nothing else happens.
\<close>

definition handleSubmit :: "builtins \<Rightarrow> pm_state \<Rightarrow> js_error + pm_state" where
  "handleSubmit js s =
     (let errors = validate js (form_values s)
      in if errors = no_errors
         then onSubmit js (form_values s) (s\<lparr>formState_errors := errors\<rparr>)
         else Inr (s\<lparr>formState_errors := errors\<rparr>))"

subsection \<open>The error handler of the create mutation\<close>

definition handleEdit :: "PublishedPrice \<Rightarrow> pm_state \<Rightarrow> pm_state" where
  "handleEdit price s =
     s\<lparr>editingPrice := Some price,
       form_values := \<lparr>fd_sku_id = FNumber (of_int (sku_id (pp_sku price))),
                        fd_district_id = FNumber (of_int (district_id (pp_district price))),
                        fd_price = FNumber (pp_price price)\<rparr>,
       isCreateModalOpen := True\<rparr>"

text \<open>\<open>error.response?.data\<close>: absent, an array, an object of field errors, or a string.\<close>

datatype error_data =
    NoResponseData
  | ArrayData "string list"
  | ObjectData "(string \<times> string list) list"
  | StringData string

fun data_truthy :: "error_data \<Rightarrow> bool" where
  "data_truthy NoResponseData = False"
| "data_truthy (StringData s) = (s \<noteq> [])"
| "data_truthy _ = True"

text \<open>\<open>Object.values(errorData).flat()\<close> and \<open>join(', ')\<close>.\<close>

fun field_errors :: "error_data \<Rightarrow> string list" where
  "field_errors (ArrayData xs) = xs"
| "field_errors (ObjectData kvs) = concat (map snd kvs)"
| "field_errors _ = []"

fun join :: "string \<Rightarrow> string list \<Rightarrow> string" where
  "join sep [] = []"
| "join sep [x] = x"
| "join sep (x # y # ys) = x @ sep @ join sep (y # ys)"

definition overlap_error :: string where
  "overlap_error = ''Published price period overlaps with existing active price.''"

definition overlap_message :: string where
  "overlap_message =
     ''You already have an active price for this product. Please edit the existing price or wait for it to expire.''"

text \<open>
  \<open>onError\<close> of \<open>createPriceMutation\<close>. Its inputs beside the state are the response
  data of the error, \<open>getErrorMessage\<close> of the error (a function of the utilities,
  taken as given), the variables of the mutation and the published prices loaded by
  the query. \<open>setTimeout(..., 1000)\<close> adds a pending timer.
\<close>

definition createPriceMutation_onError ::
  "error_data \<Rightarrow> string \<Rightarrow> PriceFormData option \<Rightarrow> PublishedPrice list option
     \<Rightarrow> pm_state \<Rightarrow> pm_state" where
  "createPriceMutation_onError errorData errorMessage variables publishedPrices s =
     (if data_truthy errorData then
        (if (case errorData of ArrayData xs \<Rightarrow> overlap_error \<in> set xs | _ \<Rightarrow> False) then
           (let s1 = s\<lparr>error_message := overlap_message\<rparr>
            in case (variables, publishedPrices) of
                 (Some currentData, Some results) \<Rightarrow>
                   (case find (\<lambda>price. Some (sku_id (pp_sku price)) = p_sku_id currentData)
                           results of
                      Some existingPrice \<Rightarrow>
                        s1\<lparr>pending_timers := pending_timers s1 @ [existingPrice]\<rparr>
                    | None \<Rightarrow> s1)
               | _ \<Rightarrow> s1)
         else if (case errorData of StringData x \<Rightarrow> False | _ \<Rightarrow> True) then
           s\<lparr>error_message := join '', '' (field_errors errorData)\<rparr>
         else s\<lparr>error_message := errorMessage\<rparr>)
      else s\<lparr>error_message := errorMessage\<rparr>)"

text \<open>The pending timers fire in order; each runs \<open>handleEdit\<close> on its price.\<close>

definition fire_timers :: "pm_state \<Rightarrow> pm_state" where
  "fire_timers s = (foldl (\<lambda>t price. handleEdit price t) s (pending_timers s))\<lparr>pending_timers := []\<rparr>"

text \<open>The first loaded price of the SKU that was submitted.\<close>

definition existing_price :: "PriceFormData \<Rightarrow> PublishedPrice list \<Rightarrow> PublishedPrice option" where
  "existing_price currentData results =
     find (\<lambda>price. Some (sku_id (pp_sku price)) = p_sku_id currentData) results"

subsection \<open>What is shown of compliance\<close>

datatype badge_variant = success | danger

text \<open>The status cell of a price: variant and label of the badge.\<close>

definition compliance_badge :: "PublishedPrice \<Rightarrow> badge_variant \<times> string" where
  "compliance_badge item =
     (if compliant item then success else danger,
      if compliant item then ''Compliant'' else ''Non-compliant'')"

text \<open>The class of the markup cell.\<close>

definition markup_class :: "PublishedPrice \<Rightarrow> string" where
  "markup_class item = (if markup_percentage item > 10 then ''text-red-600'' else ''text-green-600'')"

text \<open>
  \<open>x.toFixed(1)\<close>, as the number of tenths shown: the sign of \<open>x\<close> and the nearest
  number of tenths of its magnitude, the larger of two equally near.
\<close>

definition toFixed1 :: "rat \<Rightarrow> int" where
  "toFixed1 x = (if x < 0 then - \<lfloor>10 * (- x) + 1 / 2\<rfloor> else \<lfloor>10 * x + 1 / 2\<rfloor>)"

text \<open>The markup cell: its class and the tenths of a percent it shows.\<close>

definition markup_cell :: "PublishedPrice \<Rightarrow> string \<times> int" where
  "markup_cell item = (markup_class item, toFixed1 (markup_percentage item))"

text \<open>
  The four numbers of the compliance page, from \<open>publishedPrices?.data.results || []\<close>.
\<close>

definition prices_of :: "PublishedPrice list option \<Rightarrow> PublishedPrice list" where
  "prices_of results = (case results of Some ps \<Rightarrow> ps | None \<Rightarrow> [])"

definition totalPrices :: "PublishedPrice list option \<Rightarrow> int" where
  "totalPrices results = int (length (prices_of results))"

definition compliantPrices :: "PublishedPrice list option \<Rightarrow> int" where
  "compliantPrices results = int (length (filter compliant (prices_of results)))"

definition nonCompliantPrices :: "PublishedPrice list option \<Rightarrow> int" where
  "nonCompliantPrices results = totalPrices results - compliantPrices results"

text \<open>
  The rate is computed in double precision. The two operations of that computation,
  the quotient and the product of two numbers as the language rounds them, are
  parameters of the model.
\<close>

record number_ops =
  js_divide :: "rat \<Rightarrow> rat \<Rightarrow> rat"
  js_times :: "rat \<Rightarrow> rat \<Rightarrow> rat"

definition complianceRate :: "number_ops \<Rightarrow> PublishedPrice list option \<Rightarrow> rat" where
  "complianceRate ops results =
     (if totalPrices results > 0
      then js_times ops
             (js_divide ops (of_int (compliantPrices results)) (of_int (totalPrices results)))
             100
      else 0)"

definition rate_class :: "rat \<Rightarrow> string" where
  "rate_class rate =
     (if rate \<ge> 80 then ''bg-green-600'' else if rate \<ge> 60 then ''bg-yellow-600'' else ''bg-red-600'')"

subsection \<open>Examples\<close>

text \<open>The conversions at the strings the examples use.\<close>

definition sample_builtins :: builtins where
  "sample_builtins =
     \<lparr>parseInt = (\<lambda>s. if s = ''5'' then Some 5 else if s = ''3'' then Some 3 else None),
      parseFloat = (\<lambda>s. if s = ''120.50'' then Some (241 / 2)
                         else if s = ''0.005'' then Some (1 / 200) else None),
      numberToString = (\<lambda>x. if x = 5 then ''5'' else if x = 3 then ''3'' else ''120.50''),
      stringToNumber = (\<lambda>s. if s = ''120.50'' then Some (241 / 2)
                             else if s = ''0.005'' then Some (1 / 200) else None)\<rparr>"

text \<open>
  Operations that round nothing: right at the operands of the examples, where the
  quotient 1 / 2 and the product 0.5 * 100 are exact in double precision.
\<close>

definition unrounded_ops :: number_ops where
  "unrounded_ops = \<lparr>js_divide = (\<lambda>x y. x / y), js_times = (\<lambda>x y. x * y)\<rparr>"

definition urea_north :: PublishedPrice where
  "urea_north =
     \<lparr>pp_id = 11, pp_sku = \<lparr>sku_id = 5, sku_name = ''Urea''\<rparr>,
      pp_district = \<lparr>district_id = 3, district_name = ''North''\<rparr>,
      pp_price = 112, compliant = True, markup_percentage = 12\<rparr>"

definition dap_north :: PublishedPrice where
  "dap_north =
     \<lparr>pp_id = 12, pp_sku = \<lparr>sku_id = 6, sku_name = ''DAP''\<rparr>,
      pp_district = \<lparr>district_id = 3, district_name = ''North''\<rparr>,
      pp_price = 260, compliant = False, markup_percentage = 30\<rparr>"

definition publish_modal :: pm_state where
  "publish_modal =
     \<lparr>isCreateModalOpen = True, editingPrice = None, error_message = [],
      form_values = \<lparr>fd_sku_id = FString ''5'', fd_district_id = FString [],
                      fd_price = FString ''120.50''\<rparr>,
      formState_errors = no_errors, pending_timers = [], api_calls = []\<rparr>"


section \<open>Sortable table (components/ui/DataTable.tsx)\<close>

text \<open>
  A row is a \<open>Record<string, any>\<close>: any key may be asked of it, and a key it does not
  have gives \<open>undefined\<close>. The values modelled are the primitive ones that \<open><\<close> tells
  apart: \<open>undefined\<close>, \<open>null\<close>, booleans, \<open>NaN\<close>, the other numbers and strings; a
  string is the list of its code units.
\<close>

datatype jsval = JUndefined | JNull | JBoolean bool | JNaN | JNumber rat | JString string

type_synonym row = "string \<Rightarrow> jsval"

fun is_number :: "jsval \<Rightarrow> bool" where
  "is_number (JNumber x) = True"
| "is_number v = False"

fun is_string :: "jsval \<Rightarrow> bool" where
  "is_string (JString s) = True"
| "is_string v = False"

fun as_string :: "jsval \<Rightarrow> string option" where
  "as_string (JString s) = Some s"
| "as_string v = None"

text \<open>\<open>ToNumber\<close>, with \<open>None\<close> for \<open>NaN\<close>; the number of a string is a built-in.\<close>

fun ToNumber :: "builtins \<Rightarrow> jsval \<Rightarrow> rat option" where
  "ToNumber js JUndefined = None"
| "ToNumber js JNull = Some 0"
| "ToNumber js (JBoolean b) = Some (if b then 1 else 0)"
| "ToNumber js JNaN = None"
| "ToNumber js (JNumber x) = Some x"
| "ToNumber js (JString s) = stringToNumber js s"

text \<open>
  \<open>a < b\<close>: two strings are compared code unit by code unit; otherwise both sides are
  turned into numbers, and the comparison is false when either is \<open>NaN\<close>. \<open>a > b\<close> is
  \<open>b < a\<close>.
\<close>

definition js_less :: "builtins \<Rightarrow> jsval \<Rightarrow> jsval \<Rightarrow> bool" where
  "js_less js a b =
     (case (as_string a, as_string b) of
        (Some s, Some t) \<Rightarrow> s < t
      | _ \<Rightarrow>
          (case (ToNumber js a, ToNumber js b) of
             (Some x, Some y) \<Rightarrow> x < y
           | _ \<Rightarrow> False))"

datatype direction = asc | desc

type_synonym sortConfig = "(string \<times> direction) option"

definition handleSort :: "string \<Rightarrow> sortConfig \<Rightarrow> sortConfig" where
  "handleSort key sortConfig =
     (let direction =
        (case sortConfig of
           Some (k, d) \<Rightarrow> (if k = key \<and> d = asc then desc else asc)
         | None \<Rightarrow> asc)
      in Some (key, direction))"

text \<open>The comparator handed to \<open>sort\<close>.\<close>

definition compareFn :: "builtins \<Rightarrow> string \<times> direction \<Rightarrow> row \<Rightarrow> row \<Rightarrow> int" where
  "compareFn js cfg a b =
     (let aValue = a (fst cfg); bValue = b (fst cfg)
      in if js_less js aValue bValue then (if snd cfg = asc then - 1 else 1)
         else if js_less js bValue aValue then (if snd cfg = asc then 1 else - 1)
         else 0)"

text \<open>
  Arrays live in a heap, so that copying and sorting in place can be told apart:
  \<open>[...data]\<close> allocates a new array, \<open>sort\<close> overwrites the array it is called on and
  returns it.
\<close>

record 'r heap =
  arrays :: "nat \<Rightarrow> 'r list"
  next_addr :: nat

definition spread :: "'r heap \<Rightarrow> nat \<Rightarrow> 'r heap \<times> nat" where
  "spread h a =
     (h\<lparr>arrays := (arrays h)(next_addr h := arrays h a), next_addr := Suc (next_addr h)\<rparr>,
      next_addr h)"

text \<open>
  \<open>Array.prototype.sort\<close> with a comparator is a stable sort: an element goes before
  the first element it does not compare greater than. The model is the stable
  insertion sort with that rule.
\<close>

fun js_insert :: "('r \<Rightarrow> 'r \<Rightarrow> int) \<Rightarrow> 'r \<Rightarrow> 'r list \<Rightarrow> 'r list" where
  "js_insert cmp x [] = [x]"
| "js_insert cmp x (y # ys) = (if cmp x y \<le> 0 then x # y # ys else y # js_insert cmp x ys)"

definition js_sort :: "('r \<Rightarrow> 'r \<Rightarrow> int) \<Rightarrow> 'r list \<Rightarrow> 'r list" where
  "js_sort cmp xs = foldr (js_insert cmp) xs []"

definition Array_sort :: "('r \<Rightarrow> 'r \<Rightarrow> int) \<Rightarrow> 'r heap \<Rightarrow> nat \<Rightarrow> 'r heap \<times> nat" where
  "Array_sort cmp h a = (h\<lparr>arrays := (arrays h)(a := js_sort cmp (arrays h a))\<rparr>, a)"

text \<open>\<open>sortedData\<close>: the heap after the computation and the address of the array rendered.\<close>

definition sortedData :: "builtins \<Rightarrow> row heap \<Rightarrow> nat \<Rightarrow> sortConfig \<Rightarrow> row heap \<times> nat" where
  "sortedData js h data sortConfig =
     (case sortConfig of
        None \<Rightarrow> (h, data)
      | Some cfg \<Rightarrow>
          (let (h1, copy) = spread h data
           in Array_sort (compareFn js cfg) h1 copy))"

text \<open>The rows the table body maps over.\<close>

definition rendered_rows :: "builtins \<Rightarrow> row heap \<Rightarrow> nat \<Rightarrow> sortConfig \<Rightarrow> row list" where
  "rendered_rows js h data sortConfig =
     (let (h', a) = sortedData js h data sortConfig in arrays h' a)"

text \<open>
  Rows in the order of a column: no row is followed by a row with a smaller value
  (ascending), or by one with a greater value (descending).
\<close>

definition ascending :: "builtins \<Rightarrow> string \<Rightarrow> row list \<Rightarrow> bool" where
  "ascending js k rows = sorted_wrt (\<lambda>a b. \<not> js_less js (b k) (a k)) rows"

definition descending :: "builtins \<Rightarrow> string \<Rightarrow> row list \<Rightarrow> bool" where
  "descending js k rows = sorted_wrt (\<lambda>a b. \<not> js_less js (a k) (b k)) rows"

text \<open>A column whose values are all numbers other than \<open>NaN\<close>, or all strings.\<close>

definition comparable :: "string \<Rightarrow> row list \<Rightarrow> bool" where
  "comparable k rows =
     ((\<forall>r \<in> set rows. is_number (r k)) \<or> (\<forall>r \<in> set rows. is_string (r k)))"

text \<open>
  Two tables held in the array at address 0: one with a price and a name in every row,
  one whose second row has no price.
\<close>

definition price_table :: "row heap" where
  "price_table =
     \<lparr>arrays = (\<lambda>a. [])(0 :=
        [(\<lambda>key. JUndefined)(''price'' := JNumber 30, ''name'' := JString ''urea''),
         (\<lambda>key. JUndefined)(''price'' := JNumber 10, ''name'' := JString ''dap''),
         (\<lambda>key. JUndefined)(''price'' := JNumber 20, ''name'' := JString ''potash'')]),
      next_addr = 1\<rparr>"

definition gap_table :: "row heap" where
  "gap_table =
     \<lparr>arrays = (\<lambda>a. [])(0 :=
        [(\<lambda>key. JUndefined)(''price'' := JNumber 30),
         (\<lambda>key. JUndefined),
         (\<lambda>key. JUndefined)(''price'' := JNumber 10)]),
      next_addr = 1\<rparr>"


section \<open>Complaint management (components/admin/ComplaintManagement.tsx)\<close>

record Complaint =
  complaint_id :: int
  complaint_title :: string
  complaint_status :: string
  complainant :: User

text \<open>
  \<open>complaint.complainant.get_full_name()\<close>, in the body of every card. The complainant
  is data parsed from the JSON of the response (the client installs no transform of
  responses), the interface \<open>User\<close> declares no such member, and no JSON value is a
  function: the call is a type error, whoever the complainant is.
\<close>

definition get_full_name :: "User \<Rightarrow> js_error + string" where
  "get_full_name u = Inl TypeError"

record resolution_data =
  resolution_action :: string
  resolution_report :: string
  resolution_notes :: string

definition empty_resolution :: resolution_data where
  "empty_resolution =
     \<lparr>resolution_action = [], resolution_report = [], resolution_notes = []\<rparr>"

text \<open>The two requests of the component that change the status of a complaint.\<close>

datatype cm_request =
    updateComplaintStatus int string
  | resolveComplaint int resolution_data

record cm_state =
  complaints :: "Complaint list option"
  cm_isLoading :: bool
  selectedComplaint :: "Complaint option"
  isDetailModalOpen :: bool
  isResolutionModalOpen :: bool
  resolutionData :: resolution_data
  resolve_isPending :: bool
  cm_requests :: "cm_request list"

text \<open>
  What the user can act on: the buttons of a complaint card, of the detail dialog and
  of the resolution dialog, and the text fields of the resolution dialog.
\<close>

datatype control =
    View Complaint
  | StartReview_card Complaint
  | Resolve_card Complaint
  | Close_detail
  | StartReview_detail
  | Resolve_detail
  | Edit_resolution resolution_data
  | Cancel_resolution
  | Submit_resolution

text \<open>
  The component \<open>Modal\<close> (components/ui/Modal) is not among the sources, so what it does
  is a parameter: which controls of its children it offers, and which controls of the
  page behind it stay usable, each depending on \<open>isOpen\<close>. All that is asked of it is
  that it shows no control other than those, apart from calling its \<open>onClose\<close>, which it
  may do at any moment.
\<close>

record modal_code =
  modal_content :: "bool \<Rightarrow> control list \<Rightarrow> control list"
  modal_behind :: "bool \<Rightarrow> control list \<Rightarrow> control list"



text \<open>The button group of a card.\<close>

definition card_controls :: "Complaint \<Rightarrow> control list" where
  "card_controls complaint =
     [View complaint]
     @ (if complaint_status complaint = ''pending'' then [StartReview_card complaint] else [])
     @ (if complaint_status complaint = ''under_review'' then [Resolve_card complaint] else [])"

text \<open>
  A card: its body is evaluated before its button group, and a list of cards is
  evaluated from the first complaint on; an error ends the rendering.
\<close>

definition render_card :: "Complaint \<Rightarrow> js_error + control list" where
  "render_card complaint =
     (case get_full_name (complainant complaint) of
        Inl e \<Rightarrow> Inl e
      | Inr name \<Rightarrow> Inr (card_controls complaint))"

fun render_cards :: "Complaint list \<Rightarrow> js_error + control list" where
  "render_cards [] = Inr []"
| "render_cards (complaint # rest) =
     (case render_card complaint of
        Inl e \<Rightarrow> Inl e
      | Inr ks \<Rightarrow>
          (case render_cards rest of
             Inl e \<Rightarrow> Inl e
           | Inr others \<Rightarrow> Inr (ks @ others)))"

definition detail_controls :: "Complaint \<Rightarrow> control list" where
  "detail_controls selected =
     [Close_detail]
     @ (if complaint_status selected = ''pending'' then [StartReview_detail] else [])
     @ (if complaint_status selected = ''under_review'' then [Resolve_detail] else [])"

text \<open>The submit button of the resolution dialog is there, and enabled unless \<open>disabled\<close>.\<close>

definition submit_disabled :: "cm_state \<Rightarrow> bool" where
  "submit_disabled s =
     (resolution_action (resolutionData s) = [] \<or> resolution_report (resolutionData s) = []
      \<or> resolve_isPending s)"

definition resolution_controls :: "cm_state \<Rightarrow> control list" where
  "resolution_controls s =
     map Edit_resolution [resolutionData s]
     @ [Cancel_resolution]
     @ (if submit_disabled s then [] else [Submit_resolution])"

text \<open>
  One rendering: the controls it offers, or the error it throws. While the query is
  loading there is only the placeholder; with no data yet, or an empty list, there is
  no card.
\<close>

definition render :: "modal_code \<Rightarrow> cm_state \<Rightarrow> js_error + control list" where
  "render m s =
     (if cm_isLoading s then Inr []
      else
        (case render_cards (case complaints s of Some results \<Rightarrow> results | None \<Rightarrow> []) of
           Inl e \<Rightarrow> Inl e
         | Inr cards \<Rightarrow>
             Inr (modal_behind m (isResolutionModalOpen s)
                    (modal_behind m (isDetailModalOpen s) cards)
                  @ modal_content m (isDetailModalOpen s)
                      (case selectedComplaint s of
                         Some selected \<Rightarrow> detail_controls selected
                       | None \<Rightarrow> [])
                  @ modal_content m (isResolutionModalOpen s) (resolution_controls s))))"

text \<open>A control is offered when the rendering succeeds and holds it; a text field takes any text.\<close>

definition offered :: "modal_code \<Rightarrow> cm_state \<Rightarrow> control \<Rightarrow> bool" where
  "offered m s k =
     (case render m s of
        Inl e \<Rightarrow> False
      | Inr ks \<Rightarrow>
          (case k of
             Edit_resolution d \<Rightarrow> Edit_resolution (resolutionData s) \<in> set ks
           | _ \<Rightarrow> k \<in> set ks))"

text \<open>The handler behind each control.\<close>

fun handle :: "control \<Rightarrow> cm_state \<Rightarrow> cm_state" where
  "handle (View complaint) s =
     s\<lparr>selectedComplaint := Some complaint, isDetailModalOpen := True\<rparr>"
| "handle (StartReview_card complaint) s =
     s\<lparr>cm_requests := cm_requests s
          @ [updateComplaintStatus (complaint_id complaint) ''under_review'']\<rparr>"
| "handle (Resolve_card complaint) s =
     s\<lparr>selectedComplaint := Some complaint, isResolutionModalOpen := True\<rparr>"
| "handle Close_detail s =
     s\<lparr>isDetailModalOpen := False, selectedComplaint := None\<rparr>"
| "handle StartReview_detail s =
     (case selectedComplaint s of
        Some selected \<Rightarrow>
          s\<lparr>cm_requests := cm_requests s
               @ [updateComplaintStatus (complaint_id selected) ''under_review'']\<rparr>
      | None \<Rightarrow> s)"
| "handle Resolve_detail s =
     s\<lparr>isDetailModalOpen := False, isResolutionModalOpen := True\<rparr>"
| "handle (Edit_resolution d) s = s\<lparr>resolutionData := d\<rparr>"
| "handle Cancel_resolution s =
     s\<lparr>isResolutionModalOpen := False, resolutionData := empty_resolution\<rparr>"
| "handle Submit_resolution s =
     (case selectedComplaint s of
        Some selected \<Rightarrow>
          s\<lparr>cm_requests := cm_requests s
               @ [resolveComplaint (complaint_id selected) (resolutionData s)],
            resolve_isPending := True\<rparr>
      | None \<Rightarrow> s)"

text \<open>
  What happens to the component: the user acts on a control; the complaints query
  delivers (after the first load, a refetch or a change of filter); a Modal calls its
  \<open>onClose\<close> (\<open>handleCloseModal\<close>, \<open>handleCloseResolutionModal\<close>); a resolve request
  that is pending settles, with \<open>onSuccess\<close> or \<open>onError\<close>.
\<close>

datatype event =
    Click control
  | Query_update "Complaint list option" bool
  | Modal_onClose_detail
  | Modal_onClose_resolution
  | Resolve_settled bool

fun step :: "modal_code \<Rightarrow> event \<Rightarrow> cm_state \<Rightarrow> cm_state option" where
  "step m (Click k) s = (if offered m s k then Some (handle k s) else None)"
| "step m (Query_update results loading) s =
     Some (s\<lparr>complaints := results, cm_isLoading := loading\<rparr>)"
| "step m Modal_onClose_detail s = Some (handle Close_detail s)"
| "step m Modal_onClose_resolution s = Some (handle Cancel_resolution s)"
| "step m (Resolve_settled succeeded) s =
     (if resolve_isPending s
      then Some (if succeeded
                 then s\<lparr>isResolutionModalOpen := False, resolutionData := empty_resolution,
                        resolve_isPending := False\<rparr>
                 else s\<lparr>resolve_isPending := False\<rparr>)
      else None)"

text \<open>
  A session: a control is used only if the rendering of the moment offers it, and a
  request settles only while it is pending.
\<close>

fun run :: "modal_code \<Rightarrow> event list \<Rightarrow> cm_state \<Rightarrow> cm_state option" where
  "run m [] s = Some s"
| "run m (e # es) s = (case step m e s of Some s' \<Rightarrow> run m es s' | None \<Rightarrow> None)"







section \<open>Theorems\<close>

subsection \<open>Route guard\<close>

text \<open>
  C1, as stated, at a loading context: while \<open>isLoading\<close> holds, an unauthenticated
  visitor is not redirected, and an authenticated user with an allowed role sees the
  spinner instead of the children.
\<close>

theorem C1_loading_counterexample:
  "\<not> (\<forall>u loading allowed.
        (u = None \<longrightarrow>
           ProtectedRoute_effect (AuthProvider_value u loading) allowed = Some ''/login''
         \<and> ProtectedRoute_render (AuthProvider_value u loading) allowed \<noteq> Children)
      \<and> (\<forall>usr. u = Some usr \<and> user_role usr \<notin> set allowed \<longrightarrow>
           ProtectedRoute_effect (AuthProvider_value u loading) allowed
             = Some (dashboard_of (user_role usr))
         \<and> ProtectedRoute_render (AuthProvider_value u loading) allowed \<noteq> Children)
      \<and> (ProtectedRoute_render (AuthProvider_value u loading) allowed = Children
           \<longleftrightarrow> (\<exists>usr. u = Some usr \<and> user_role usr \<in> set allowed)))"
  (is "\<not> (\<forall>u loading allowed. ?claim u loading allowed)")
proof
  assume "\<forall>u loading allowed. ?claim u loading allowed"
  then have "?claim None True [retailer]"
    by blast
  then have "ProtectedRoute_effect (AuthProvider_value None True) [retailer] = Some ''/login''"
    by simp
  then show False
    by (simp add: ProtectedRoute_effect_def AuthProvider_value_def)
qed

text \<open>
  C1 (amended): once the auth context has finished loading, a visitor with no user is
  pushed to /login and nothing is rendered; a user whose role is not allowed is pushed
  to the dashboard of their own role and nothing is rendered; the children are rendered
  exactly when there is a user whose role is allowed. While the context is loading the
  guard pushes nothing and renders the spinner.
\<close>

theorem C1_guard_after_loading:
  "(u = None \<longrightarrow>
      ProtectedRoute_effect (AuthProvider_value u False) allowed = Some ''/login''
    \<and> ProtectedRoute_render (AuthProvider_value u False) allowed = Nothing)
 \<and> (\<forall>usr. u = Some usr \<and> user_role usr \<notin> set allowed \<longrightarrow>
      ProtectedRoute_effect (AuthProvider_value u False) allowed = Some (dashboard_of (user_role usr))
    \<and> ProtectedRoute_render (AuthProvider_value u False) allowed = Nothing)
 \<and> (\<forall>usr. u = Some usr \<and> user_role usr \<in> set allowed \<longrightarrow>
      ProtectedRoute_effect (AuthProvider_value u False) allowed = None)
 \<and> (ProtectedRoute_render (AuthProvider_value u False) allowed = Children
      \<longleftrightarrow> (\<exists>usr. u = Some usr \<and> user_role usr \<in> set allowed))
 \<and> ProtectedRoute_effect (AuthProvider_value u True) allowed = None
 \<and> ProtectedRoute_render (AuthProvider_value u True) allowed = Spinner"
proof -
  have dash: "\<And>r. (if r = gov_admin then Some ''/dashboard/admin''
                    else if r = retailer then Some ''/dashboard/retailer''
                    else if r = farmer then Some ''/dashboard/farmer''
                    else None) = Some (dashboard_of r)"
    subgoal for r by (cases r) simp_all
    done
  show ?thesis
    unfolding ProtectedRoute_effect_def ProtectedRoute_render_def AuthProvider_value_def
    by (cases u) (simp_all add: dash)
qed

theorem C1_guard_after_loading_witness:
  "ProtectedRoute_effect (AuthProvider_value None False) [retailer] = Some ''/login''
 \<and> ProtectedRoute_render (AuthProvider_value None False) [retailer] = Nothing
 \<and> ProtectedRoute_effect
      (AuthProvider_value (Some \<lparr>user_id = 7, user_role = farmer\<rparr>) False) [retailer]
      = Some ''/dashboard/farmer''
 \<and> ProtectedRoute_render
      (AuthProvider_value (Some \<lparr>user_id = 7, user_role = farmer\<rparr>) False) [retailer]
      = Nothing
 \<and> ProtectedRoute_render
      (AuthProvider_value (Some \<lparr>user_id = 8, user_role = retailer\<rparr>) False) [retailer]
      = Children"
  using C1_guard_after_loading [of None "[retailer]"]
    C1_guard_after_loading [of "Some \<lparr>user_id = 7, user_role = farmer\<rparr>" "[retailer]"]
    C1_guard_after_loading [of "Some \<lparr>user_id = 8, user_role = retailer\<rparr>" "[retailer]"]
  by simp

subsection \<open>Complaint statuses\<close>






subsection \<open>Reference prices\<close>

lemma district_scoped_Some:
  "district_scoped refs skuId d = Some r \<Longrightarrow>
     r \<in> set refs \<and> sku_id (ref_sku r) = skuId
   \<and> (\<exists>dist. ref_district r = Val dist \<and> district_id dist = d)"
  unfolding district_scoped_def find_Some_iff
  by (cases "ref_district r") (auto simp: in_set_conv_nth)

lemma district_scoped_None:
  "district_scoped refs skuId d = None \<longleftrightarrow>
     \<not> (\<exists>r \<in> set refs. sku_id (ref_sku r) = skuId
            \<and> optional_district_id (ref_district r) = Some d)"
  unfolding district_scoped_def find_None_iff by blast

lemma global_price_Some:
  "global_price refs skuId = Some r \<Longrightarrow>
     r \<in> set refs \<and> sku_id (ref_sku r) = skuId \<and> ref_district r = Null"
  unfolding global_price_def find_Some_iff by (auto simp: in_set_conv_nth)

text \<open>
  C4, as stated, at district id 0: the only reference price is the one of SKU 1 in
  district 0, and a lookup for SKU 1 in district 0 returns \<open>undefined\<close>.
\<close>

theorem C4_district_zero_counterexample:
  "\<not> (\<forall>refs skuId d r.
        district_scoped refs skuId d = Some r \<longrightarrow>
        getReferencePrice (Some refs) skuId (Some d) = Val r)"
proof
  let ?r = "\<lparr>ref_id = 1, ref_sku = \<lparr>sku_id = 1, sku_name = ''Urea''\<rparr>,
             ref_district = Val \<lparr>district_id = 0, district_name = ''North''\<rparr>,
             ref_price = 100\<rparr>"
  assume "\<forall>refs skuId d r.
        district_scoped refs skuId d = Some r \<longrightarrow>
        getReferencePrice (Some refs) skuId (Some d) = Val r"
  moreover have "district_scoped [?r] 1 0 = Some ?r"
    by (simp add: district_scoped_def)
  ultimately have "getReferencePrice (Some [?r]) 1 (Some 0) = Val ?r"
    by blast
  then show False
    by (simp add: getReferencePrice_def)
qed

text \<open>
  C4 (amended): for a district id other than 0, \<open>getReferencePrice\<close> returns the first
  reference price matching both the SKU id and the district id when one exists; in every
  other case (no such price, no district id, or district id 0) it returns the first
  reference price of that SKU whose district is \<open>null\<close>, and \<open>undefined\<close> when there is
  none; with no reference-price data loaded it returns \<open>null\<close>.
\<close>

theorem C4_getReferencePrice:
  "(d \<noteq> 0 \<and> district_scoped refs skuId d = Some r \<longrightarrow>
      getReferencePrice (Some refs) skuId (Some d) = Val r)
 \<and> (d \<noteq> 0 \<and> district_scoped refs skuId d = None \<longrightarrow>
      getReferencePrice (Some refs) skuId (Some d) =
        (case global_price refs skuId of Some g \<Rightarrow> Val g | None \<Rightarrow> Undefined))
 \<and> getReferencePrice (Some refs) skuId (Some 0) =
        (case global_price refs skuId of Some g \<Rightarrow> Val g | None \<Rightarrow> Undefined)
 \<and> getReferencePrice (Some refs) skuId None =
        (case global_price refs skuId of Some g \<Rightarrow> Val g | None \<Rightarrow> Undefined)
 \<and> getReferencePrice None skuId districtId = Null"
  by (simp add: getReferencePrice_def district_scoped_def global_price_def)

theorem C4_getReferencePrice_witness:
  "getReferencePrice
     (Some [\<lparr>ref_id = 1, ref_sku = \<lparr>sku_id = 5, sku_name = ''Urea''\<rparr>,
              ref_district = Null, ref_price = 90\<rparr>,
            \<lparr>ref_id = 2, ref_sku = \<lparr>sku_id = 5, sku_name = ''Urea''\<rparr>,
              ref_district = Val \<lparr>district_id = 3, district_name = ''North''\<rparr>,
              ref_price = 100\<rparr>]) 5 (Some 3)
   = Val \<lparr>ref_id = 2, ref_sku = \<lparr>sku_id = 5, sku_name = ''Urea''\<rparr>,
              ref_district = Val \<lparr>district_id = 3, district_name = ''North''\<rparr>,
              ref_price = 100\<rparr>
 \<and> getReferencePrice
     (Some [\<lparr>ref_id = 1, ref_sku = \<lparr>sku_id = 5, sku_name = ''Urea''\<rparr>,
              ref_district = Null, ref_price = 90\<rparr>,
            \<lparr>ref_id = 2, ref_sku = \<lparr>sku_id = 5, sku_name = ''Urea''\<rparr>,
              ref_district = Val \<lparr>district_id = 3, district_name = ''North''\<rparr>,
              ref_price = 100\<rparr>]) 5 (Some 4)
   = Val \<lparr>ref_id = 1, ref_sku = \<lparr>sku_id = 5, sku_name = ''Urea''\<rparr>,
              ref_district = Null, ref_price = 90\<rparr>"
proof -
  let ?g = "\<lparr>ref_id = 1, ref_sku = \<lparr>sku_id = 5, sku_name = ''Urea''\<rparr>,
              ref_district = Null, ref_price = 90\<rparr>"
  let ?n = "\<lparr>ref_id = 2, ref_sku = \<lparr>sku_id = 5, sku_name = ''Urea''\<rparr>,
              ref_district = Val \<lparr>district_id = 3, district_name = ''North''\<rparr>,
              ref_price = 100\<rparr>"
  have 1: "district_scoped [?g, ?n] 5 3 = Some ?n"
    by (simp add: district_scoped_def)
  have 2: "district_scoped [?g, ?n] 5 4 = None"
    by (simp add: district_scoped_def)
  have 3: "global_price [?g, ?n] 5 = Some ?g"
    by (simp add: global_price_def)
  show ?thesis
    using C4_getReferencePrice [of 3 "[?g, ?n]" 5 ?n] C4_getReferencePrice [of 4 "[?g, ?n]" 5] 1 2 3
    by simp
qed

subsection \<open>API client\<close>

lemma request_interceptor_retry [simp]:
  "cfg_retry (request_interceptor w cfg) = cfg_retry cfg"
  by (simp add: request_interceptor_def split: option.splits)

lemma refresh_request_retry [simp]: "\<not> cfg_retry (refresh_request t)"
  by (simp add: refresh_request_def)

lemma refresh_loop:
  assumes srv: "\<And>received. \<exists>b. srv received = Response 401 b"
  shows "\<not> cfg_retry cfg \<Longrightarrow> truthy_string (refresh_token w) \<Longrightarrow>
         fst (client n srv cfg w) = None
       \<and> access_token (snd (client n srv cfg w)) = access_token w
       \<and> refresh_token (snd (client n srv cfg w)) = refresh_token w
       \<and> href (snd (client n srv cfg w)) = href w
       \<and> length (sent (snd (client n srv cfg w))) = length (sent w) + n"
proof (induction n arbitrary: cfg w)
  case 0
  then show ?case by simp
next
  case (Suc n)
  let ?cfg1 = "request_interceptor w cfg"
  let ?w1 = "w\<lparr>sent := sent w @ [?cfg1]\<rparr>"
  obtain b where b: "srv (sent w @ [?cfg1]) = Response 401 b"
    using srv by blast
  obtain t where t: "refresh_token w = Some t" and tt: "t \<noteq> []"
    using Suc.prems(2) by (cases "refresh_token w") auto
  have tr: "truthy_string (refresh_token ?w1)"
    using Suc.prems(2) by simp
  note ih = Suc.IH [OF refresh_request_retry tr, of t]
  obtain o2 w2 where eq: "client n srv (refresh_request t) ?w1 = (o2, w2)"
    by (cases "client n srv (refresh_request t) ?w1") blast
  from ih eq have o2: "o2 = None"
    by simp
  have step: "client (Suc n) srv cfg w = (None, w2)"
    using b t tt Suc.prems(1) eq o2 by (simp add: Let_def)
  show ?case
    using ih eq by (simp only: step) simp
qed

lemma passthrough:
  assumes r: "srv (sent w @ [request_interceptor w cfg]) = r"
    and f: "failed r"
    and c: "map_option fst (reply_response r) \<noteq> Some 401 \<or> cfg_retry cfg"
  shows "client (Suc n) srv cfg w =
           (Some (Rejected \<lparr>err_config = request_interceptor w cfg,
                            err_response = reply_response r\<rparr>),
            w\<lparr>sent := sent w @ [request_interceptor w cfg]\<rparr>)"
  using r f c by (cases r) (auto simp: Let_def)

lemma no_refresh_token:
  assumes r: "srv (sent w @ [request_interceptor w cfg]) = Response 401 b"
    and c: "\<not> cfg_retry cfg" and t: "\<not> truthy_string (refresh_token w)"
  shows "client (Suc n) srv cfg w =
           (Some (Rejected \<lparr>err_config = (request_interceptor w cfg)\<lparr>cfg_retry := True\<rparr>,
                            err_response = Some (401, b)\<rparr>),
            w\<lparr>sent := sent w @ [request_interceptor w cfg]\<rparr>)"
  using r c t by (cases "refresh_token w") (auto simp: Let_def)

lemma refresh_then_resend:
  assumes r: "srv (sent w @ [request_interceptor w cfg]) = Response 401 b"
    and c: "\<not> cfg_retry cfg" and t: "refresh_token w = Some tok" "tok \<noteq> []"
    and r2: "srv (sent w @ [request_interceptor w cfg, request_interceptor w (refresh_request tok)])
               = Response st (TokensBody a rt)"
    and ok: "200 \<le> st" "st < 300"
  shows "client (Suc (Suc n)) srv cfg w =
           client (Suc n) srv ((request_interceptor w cfg)\<lparr>cfg_retry := True,
                                cfg_authorization := Some (''Bearer '' @ a)\<rparr>)
             (setTokens a rt (w\<lparr>sent := sent w @ [request_interceptor w cfg,
                                   request_interceptor w (refresh_request tok)]\<rparr>))"
proof -
  let ?cfg1 = "request_interceptor w cfg"
  let ?w1 = "w\<lparr>sent := sent w @ [?cfg1]\<rparr>"
  let ?w2 = "w\<lparr>sent := sent w @ [?cfg1, request_interceptor w (refresh_request tok)]\<rparr>"
  have ri: "request_interceptor ?w1 x = request_interceptor w x" for x
    by (simp add: request_interceptor_def)
  have refresh: "client (Suc n) srv (refresh_request tok) ?w1
                   = (Some (Resolved st (TokensBody a rt) (request_interceptor w (refresh_request tok))), ?w2)"
    using r2 ok by (simp add: Let_def ri)
  have "client (Suc (Suc n)) srv cfg w
          = response_rejected (Suc n) srv \<lparr>err_config = ?cfg1, err_response = Some (401, b)\<rparr> ?w1"
    using r by (subst client.simps(2)) (simp add: Let_def)
  also have "\<dots> = client (Suc n) srv (?cfg1\<lparr>cfg_retry := True,
                                cfg_authorization := Some (''Bearer '' @ a)\<rparr>) (setTokens a rt ?w2)"
    using c t by (subst response_rejected.simps) (simp add: Let_def refresh del: client.simps)
  finally show ?thesis .
qed

lemma resent_settles:
  assumes "cfg_retry cfg"
  shows "client (Suc n) srv cfg w =
           (Some (settle (request_interceptor w cfg) (srv (sent w @ [request_interceptor w cfg]))),
            w\<lparr>sent := sent w @ [request_interceptor w cfg]\<rparr>)"
  using assms
  by (cases "srv (sent w @ [request_interceptor w cfg])") (auto simp: Let_def settle_def)

lemma refresh_rejected_logs_out:
  assumes r: "srv (sent w @ [request_interceptor w cfg]) = Response 401 b"
    and c: "\<not> cfg_retry cfg" and t: "refresh_token w = Some tok" "tok \<noteq> []"
    and r2: "srv (sent w @ [request_interceptor w cfg, request_interceptor w (refresh_request tok)])
               = r'"
    and f: "failed r'" "map_option fst (reply_response r') \<noteq> Some 401"
  shows "client (Suc (Suc n)) srv cfg w =
           (Some (Rejected \<lparr>err_config = (request_interceptor w cfg)\<lparr>cfg_retry := True\<rparr>,
                            err_response = Some (401, b)\<rparr>),
            (clearTokens (w\<lparr>sent := sent w @ [request_interceptor w cfg,
                                   request_interceptor w (refresh_request tok)]\<rparr>))
              \<lparr>href := ''/login''\<rparr>)"
proof -
  let ?cfg1 = "request_interceptor w cfg"
  let ?w1 = "w\<lparr>sent := sent w @ [?cfg1]\<rparr>"
  let ?rr = "request_interceptor w (refresh_request tok)"
  let ?w2 = "w\<lparr>sent := sent w @ [?cfg1, ?rr]\<rparr>"
  have ri: "request_interceptor ?w1 x = request_interceptor w x" for x
    by (simp add: request_interceptor_def)
  have "srv (sent ?w1 @ [request_interceptor ?w1 (refresh_request tok)]) = r'"
    using r2 by (simp add: ri)
  from passthrough [where srv = srv and w = ?w1 and cfg = "refresh_request tok" and r = r'
      and n = n, OF this f(1)] f(2)
  have refresh: "client (Suc n) srv (refresh_request tok) ?w1
                   = (Some (Rejected \<lparr>err_config = ?rr, err_response = reply_response r'\<rparr>), ?w2)"
    by (simp add: ri)
  have "client (Suc (Suc n)) srv cfg w
          = response_rejected (Suc n) srv \<lparr>err_config = ?cfg1, err_response = Some (401, b)\<rparr> ?w1"
    using r by (subst client.simps(2)) (simp add: Let_def)
  also have "\<dots> = (Some (Rejected \<lparr>err_config = ?cfg1\<lparr>cfg_retry := True\<rparr>,
                            err_response = Some (401, b)\<rparr>),
            (clearTokens ?w2)\<lparr>href := ''/login''\<rparr>)"
    using c t by (subst response_rejected.simps) (simp add: Let_def refresh del: client.simps)
  finally show ?thesis .
qed

text \<open>
  C9, at the failing input: the access token has expired, a refresh token is stored,
  and the server answers 401 to every request, the refresh requests included. Whatever
  the bound on nested calls, the promise has not settled when it is reached, every call
  has sent one more request, and the tokens and the location are untouched: the refresh
  request goes through the same interceptor, which answers its 401 with another refresh.
\<close>

theorem C9_refresh_401_never_settles:
  "fst (client n always_401 getProfile signed_in_browser) = None
 \<and> access_token (snd (client n always_401 getProfile signed_in_browser)) = Some ''a0''
 \<and> refresh_token (snd (client n always_401 getProfile signed_in_browser)) = Some ''r0''
 \<and> href (snd (client n always_401 getProfile signed_in_browser)) = ''/dashboard/farmer''
 \<and> length (sent (snd (client n always_401 getProfile signed_in_browser))) = n"
proof -
  have srv: "\<And>received. \<exists>b. always_401 received = Response 401 b"
    by (simp add: always_401_def)
  have c: "\<not> cfg_retry getProfile"
    by (simp add: getProfile_def)
  have t: "truthy_string (refresh_token signed_in_browser)"
    by (simp add: signed_in_browser_def)
  show ?thesis
    using refresh_loop [of always_401 getProfile signed_in_browser n, OF srv c t]
    by (simp add: signed_in_browser_def)
qed

theorem C9_refresh_401_never_settles_witness:
  "fst (client 4 always_401 getProfile signed_in_browser) = None
 \<and> refresh_token (snd (client 4 always_401 getProfile signed_in_browser)) = Some ''r0''
 \<and> href (snd (client 4 always_401 getProfile signed_in_browser)) = ''/dashboard/farmer''
 \<and> length (sent (snd (client 4 always_401 getProfile signed_in_browser))) = 4"
  using C9_refresh_401_never_settles [of 4] by simp

text \<open>
  C6, as stated, at an expired access token: the first request fails with 401, and the
  client answers the failure by sending two more requests and replacing both stored
  tokens; the caller sees a resolved promise.
\<close>

theorem C6_refresh_counterexample:
  "\<not> (\<forall>n srv cfg w out w'.
        failed (srv (sent w @ [request_interceptor w cfg]))
        \<and> client n srv cfg w = (Some out, w')
        \<longrightarrow> (\<exists>e. out = Rejected e)
          \<and> sent w' = sent w @ [request_interceptor w cfg]
          \<and> access_token w' = access_token w
          \<and> refresh_token w' = refresh_token w)"
proof
  assume a: "\<forall>n srv cfg w out w'.
        failed (srv (sent w @ [request_interceptor w cfg]))
        \<and> client n srv cfg w = (Some out, w')
        \<longrightarrow> (\<exists>e. out = Rejected e)
          \<and> sent w' = sent w @ [request_interceptor w cfg]
          \<and> access_token w' = access_token w
          \<and> refresh_token w' = refresh_token w"
  let ?sent1 = "\<lparr>cfg_method = ''get'', cfg_url = ''/auth/profile/'', cfg_data = NoData,
                 cfg_authorization = Some ''Bearer a0'', cfg_retry = False\<rparr>"
  let ?sent2 = "\<lparr>cfg_method = ''post'', cfg_url = ''/token/refresh/'',
                 cfg_data = RefreshData ''r0'',
                 cfg_authorization = Some ''Bearer a0'', cfg_retry = False\<rparr>"
  let ?sent3 = "\<lparr>cfg_method = ''get'', cfg_url = ''/auth/profile/'', cfg_data = NoData,
                 cfg_authorization = Some ''Bearer a1'', cfg_retry = True\<rparr>"
  have run: "client 3 expired_then_refreshed getProfile signed_in_browser =
          (Some (Resolved 200 (DataBody ''profile'') ?sent3),
           \<lparr>access_token = Some ''a1'', refresh_token = Some ''r1'',
            href = ''/dashboard/farmer'', sent = [?sent1, ?sent2, ?sent3]\<rparr>)"
    by (simp add: expired_then_refreshed_def getProfile_def signed_in_browser_def
        numeral_3_eq_3 request_interceptor_def refresh_request_def setTokens_def Let_def)
  have f: "failed (expired_then_refreshed
             (sent signed_in_browser @ [request_interceptor signed_in_browser getProfile]))"
    by (simp add: expired_then_refreshed_def signed_in_browser_def)
  from a f run have "\<exists>e. Resolved 200 (DataBody ''profile'') ?sent3 = Rejected e"
    by blast
  then show False
    by simp
qed

text \<open>
  C6 (amended): the client has one failure-recovery path, the 401 branch of its
  response interceptor. A failed request that is not a first 401 with a refresh token
  stored (another status, no response at all, a request already flagged \<open>_retry\<close>, or
  no refresh token) is rejected with its error after that one request, and the stored
  tokens and the location stay as they were. A first 401 with a refresh token stored
  makes the client request a refresh; when the refresh resolves with a token pair, the
  client stores the pair and sends the original request once more, with the new access
  token and flagged \<open>_retry\<close>, and the caller gets whatever that third request yields.
\<close>

theorem C6_recovery_only_on_first_401:
  assumes f: "failed (srv (sent w @ [request_interceptor w cfg]))"
  shows "(map_option fst (reply_response (srv (sent w @ [request_interceptor w cfg]))) \<noteq> Some 401
          \<or> cfg_retry cfg \<or> \<not> truthy_string (refresh_token w) \<longrightarrow>
            (\<exists>e. client (Suc n) srv cfg w =
                   (Some (Rejected e), w\<lparr>sent := sent w @ [request_interceptor w cfg]\<rparr>)
                \<and> err_response e = reply_response (srv (sent w @ [request_interceptor w cfg]))))
       \<and> (srv (sent w @ [request_interceptor w cfg]) = Response 401 b
          \<and> \<not> cfg_retry cfg \<and> refresh_token w = Some tok \<and> tok \<noteq> []
          \<and> srv (sent w @ [request_interceptor w cfg, request_interceptor w (refresh_request tok)])
               = Response st (TokensBody a rt)
          \<and> 200 \<le> st \<and> st < 300 \<longrightarrow>
            client (Suc (Suc n)) srv cfg w =
              (Some (settle ((request_interceptor w cfg)
                               \<lparr>cfg_retry := True, cfg_authorization := Some (''Bearer '' @ a)\<rparr>)
                      (srv (sent w @ [request_interceptor w cfg,
                                      request_interceptor w (refresh_request tok),
                                      (request_interceptor w cfg)
                                        \<lparr>cfg_retry := True,
                                         cfg_authorization := Some (''Bearer '' @ a)\<rparr>]))),
               w\<lparr>access_token := Some a, refresh_token := Some rt,
                 sent := sent w @ [request_interceptor w cfg,
                                   request_interceptor w (refresh_request tok),
                                   (request_interceptor w cfg)
                                     \<lparr>cfg_retry := True,
                                      cfg_authorization := Some (''Bearer '' @ a)\<rparr>]\<rparr>))"
proof (intro conjI impI)
  let ?r = "srv (sent w @ [request_interceptor w cfg])"
  assume c: "map_option fst (reply_response ?r) \<noteq> Some 401
          \<or> cfg_retry cfg \<or> \<not> truthy_string (refresh_token w)"
  show "\<exists>e. client (Suc n) srv cfg w =
                   (Some (Rejected e), w\<lparr>sent := sent w @ [request_interceptor w cfg]\<rparr>)
                \<and> err_response e = reply_response ?r"
  proof (cases "map_option fst (reply_response ?r) \<noteq> Some 401 \<or> cfg_retry cfg")
    case True
    from passthrough [where srv = srv and w = w and cfg = cfg and r = ?r and n = n,
        OF refl f True]
    show ?thesis
      by simp
  next
    case False
    then obtain b' where b': "?r = Response 401 b'"
      by (cases ?r) auto
    from False c have "\<not> cfg_retry cfg" "\<not> truthy_string (refresh_token w)"
      by auto
    from no_refresh_token [where srv = srv and w = w and cfg = cfg and b = b' and n = n,
        OF b' this] b'
    show ?thesis
      by simp
  qed
next
  let ?cfg1 = "request_interceptor w cfg"
  let ?rr = "request_interceptor w (refresh_request tok)"
  let ?resent = "?cfg1\<lparr>cfg_retry := True, cfg_authorization := Some (''Bearer '' @ a)\<rparr>"
  let ?w2 = "setTokens a rt (w\<lparr>sent := sent w @ [?cfg1, ?rr]\<rparr>)"
  assume h: "srv (sent w @ [?cfg1]) = Response 401 b
          \<and> \<not> cfg_retry cfg \<and> refresh_token w = Some tok \<and> tok \<noteq> []
          \<and> srv (sent w @ [?cfg1, ?rr]) = Response st (TokensBody a rt)
          \<and> 200 \<le> st \<and> st < 300"
  then have h1: "srv (sent w @ [?cfg1]) = Response 401 b" and h2: "\<not> cfg_retry cfg"
    and h3: "refresh_token w = Some tok" and h4: "tok \<noteq> []"
    and h5: "srv (sent w @ [?cfg1, ?rr]) = Response st (TokensBody a rt)"
    and h6: "200 \<le> st" and h7: "st < 300"
    by simp_all
  have 1: "client (Suc (Suc n)) srv cfg w = client (Suc n) srv ?resent ?w2"
    by (rule refresh_then_resend [where b = b and tok = tok and st = st, OF h1 h2 h3 h4 h5 h6 h7])
  have ri: "request_interceptor ?w2 ?resent = ?resent"
    by (simp add: request_interceptor_def setTokens_def)
  have "cfg_retry ?resent"
    by simp
  from resent_settles [where cfg = ?resent and n = n and srv = srv and w = ?w2, OF this]
  show "client (Suc (Suc n)) srv cfg w =
          (Some (settle ?resent (srv (sent w @ [?cfg1, ?rr, ?resent]))),
           w\<lparr>access_token := Some a, refresh_token := Some rt,
             sent := sent w @ [?cfg1, ?rr, ?resent]\<rparr>)"
    unfolding 1 ri by (simp add: setTokens_def)
qed

theorem C6_recovery_only_on_first_401_witness:
  "failed (always_401 (sent signed_in_browser
             @ [request_interceptor signed_in_browser (getProfile\<lparr>cfg_retry := True\<rparr>)]))
 \<and> (\<exists>e. client (Suc 0) always_401 (getProfile\<lparr>cfg_retry := True\<rparr>) signed_in_browser =
          (Some (Rejected e),
           signed_in_browser\<lparr>sent :=
             [request_interceptor signed_in_browser (getProfile\<lparr>cfg_retry := True\<rparr>)]\<rparr>)
        \<and> err_response e = Some (401, DataBody ''token_not_valid''))
 \<and> failed (expired_then_refreshed (sent signed_in_browser
             @ [request_interceptor signed_in_browser getProfile]))
 \<and> fst (client (Suc (Suc 0)) expired_then_refreshed getProfile signed_in_browser) =
      Some (Resolved 200 (DataBody ''profile'')
             (getProfile\<lparr>cfg_retry := True, cfg_authorization := Some ''Bearer a1''\<rparr>))
 \<and> access_token (snd (client (Suc (Suc 0)) expired_then_refreshed getProfile signed_in_browser))
      = Some ''a1''
 \<and> refresh_token (snd (client (Suc (Suc 0)) expired_then_refreshed getProfile signed_in_browser))
      = Some ''r1''
 \<and> length (sent (snd (client (Suc (Suc 0)) expired_then_refreshed getProfile signed_in_browser)))
      = 3"
proof -
  have f1: "failed (always_401 (sent signed_in_browser
             @ [request_interceptor signed_in_browser (getProfile\<lparr>cfg_retry := True\<rparr>)]))"
    by (simp add: always_401_def)
  have f2: "failed (expired_then_refreshed (sent signed_in_browser
             @ [request_interceptor signed_in_browser getProfile]))"
    by (simp add: expired_then_refreshed_def signed_in_browser_def)
  note a = C6_recovery_only_on_first_401 [where srv = always_401 and w = signed_in_browser
      and cfg = "getProfile\<lparr>cfg_retry := True\<rparr>" and n = 0, OF f1]
  note b = C6_recovery_only_on_first_401 [where srv = expired_then_refreshed
      and w = signed_in_browser and cfg = getProfile and n = 0 and b = "DataBody ''expired''"
      and tok = "''r0''" and st = 200 and a = "''a1''" and rt = "''r1''", OF f2]
  have pa: "\<exists>e. client (Suc 0) always_401 (getProfile\<lparr>cfg_retry := True\<rparr>) signed_in_browser =
          (Some (Rejected e),
           signed_in_browser\<lparr>sent :=
             [request_interceptor signed_in_browser (getProfile\<lparr>cfg_retry := True\<rparr>)]\<rparr>)
        \<and> err_response e = Some (401, DataBody ''token_not_valid'')"
    using a by (simp add: always_401_def signed_in_browser_def getProfile_def)
  have pb: "client (Suc (Suc 0)) expired_then_refreshed getProfile signed_in_browser =
       (Some (Resolved 200 (DataBody ''profile'')
             (getProfile\<lparr>cfg_retry := True, cfg_authorization := Some ''Bearer a1''\<rparr>)),
        signed_in_browser\<lparr>access_token := Some ''a1'', refresh_token := Some ''r1'',
          sent := [request_interceptor signed_in_browser getProfile,
                   request_interceptor signed_in_browser (refresh_request ''r0''),
                   (request_interceptor signed_in_browser getProfile)
                     \<lparr>cfg_retry := True, cfg_authorization := Some ''Bearer a1''\<rparr>]\<rparr>)"
    using b
    by (simp add: expired_then_refreshed_def signed_in_browser_def getProfile_def
        request_interceptor_def refresh_request_def settle_def)
  have pc: "fst (client (Suc (Suc 0)) expired_then_refreshed getProfile signed_in_browser) =
      Some (Resolved 200 (DataBody ''profile'')
             (getProfile\<lparr>cfg_retry := True, cfg_authorization := Some ''Bearer a1''\<rparr>))
 \<and> access_token (snd (client (Suc (Suc 0)) expired_then_refreshed getProfile signed_in_browser))
      = Some ''a1''
 \<and> refresh_token (snd (client (Suc (Suc 0)) expired_then_refreshed getProfile signed_in_browser))
      = Some ''r1''
 \<and> length (sent (snd (client (Suc (Suc 0)) expired_then_refreshed getProfile signed_in_browser)))
      = 3"
    unfolding pb by simp
  from f1 pa f2 pc show ?thesis
    by blast
qed

subsection \<open>Sortable table\<close>

lemma set_js_insert: "set (js_insert cmp x ys) = insert x (set ys)"
  by (induction ys) auto

lemma mset_js_insert: "mset (js_insert cmp x ys) = add_mset x (mset ys)"
  by (induction ys) auto

lemma mset_js_sort: "mset (js_sort cmp xs) = mset xs"
  unfolding js_sort_def by (induction xs) (auto simp: mset_js_insert)

lemma set_js_sort: "set (js_sort cmp xs) = set xs"
  using mset_js_sort [of cmp xs] by (metis set_mset_mset)

lemma sorted_wrt_js_insert:
  assumes total: "\<And>a b. a \<in> A \<Longrightarrow> b \<in> A \<Longrightarrow> \<not> cmp a b \<le> 0 \<Longrightarrow> cmp b a \<le> 0"
    and trans: "\<And>a b c. a \<in> A \<Longrightarrow> b \<in> A \<Longrightarrow> c \<in> A \<Longrightarrow>
                  cmp a b \<le> 0 \<Longrightarrow> cmp b c \<le> 0 \<Longrightarrow> cmp a c \<le> 0"
  shows "x \<in> A \<Longrightarrow> set ys \<subseteq> A \<Longrightarrow> sorted_wrt (\<lambda>a b. cmp a b \<le> 0) ys \<Longrightarrow>
         sorted_wrt (\<lambda>a b. cmp a b \<le> 0) (js_insert cmp x ys)"
proof (induction ys)
  case Nil
  then show ?case by simp
next
  case (Cons y ys)
  show ?case
  proof (cases "cmp x y \<le> 0")
    case True
    have "\<forall>z \<in> set ys. cmp x z \<le> 0"
    proof
      fix z assume z: "z \<in> set ys"
      with Cons.prems have "cmp y z \<le> 0" "z \<in> A" "y \<in> A"
        by auto
      with True Cons.prems(1) show "cmp x z \<le> 0"
        using trans by blast
    qed
    with True Cons.prems show ?thesis
      by simp
  next
    case False
    have "cmp y x \<le> 0"
      using total [of x y] False Cons.prems by simp
    with False Cons show ?thesis
      by (auto simp: set_js_insert)
  qed
qed

lemma sorted_wrt_js_sort:
  assumes total: "\<And>a b. a \<in> A \<Longrightarrow> b \<in> A \<Longrightarrow> \<not> cmp a b \<le> 0 \<Longrightarrow> cmp b a \<le> 0"
    and trans: "\<And>a b c. a \<in> A \<Longrightarrow> b \<in> A \<Longrightarrow> c \<in> A \<Longrightarrow>
                  cmp a b \<le> 0 \<Longrightarrow> cmp b c \<le> 0 \<Longrightarrow> cmp a c \<le> 0"
  shows "set xs \<subseteq> A \<Longrightarrow> sorted_wrt (\<lambda>a b. cmp a b \<le> 0) (js_sort cmp xs)"
proof (induction xs)
  case Nil
  then show ?case by (simp add: js_sort_def)
next
  case (Cons x xs)
  then have ih: "sorted_wrt (\<lambda>a b. cmp a b \<le> 0) (js_sort cmp xs)"
    by simp
  have s: "set (js_sort cmp xs) \<subseteq> A"
    using Cons.prems by (simp add: set_js_sort)
  have x: "x \<in> A"
    using Cons.prems by simp
  have "js_sort cmp (x # xs) = js_insert cmp x (js_sort cmp xs)"
    by (simp add: js_sort_def)
  then show ?case
    using sorted_wrt_js_insert [of A cmp x "js_sort cmp xs", OF total trans x s ih]
    by simp
qed

lemma js_less_numbers: "js_less js (JNumber x) (JNumber y) = (x < y)"
  by (simp add: js_less_def)

lemma js_less_strings: "js_less js (JString s) (JString t) = (s < t)"
  by (simp add: js_less_def)

lemma js_less_asym: "js_less js a b \<Longrightarrow> \<not> js_less js b a"
  by (auto simp: js_less_def split: option.splits prod.splits)

lemma compareFn_asc: "compareFn js (k, asc) a b \<le> 0 \<longleftrightarrow> \<not> js_less js (b k) (a k)"
  using js_less_asym [of js "a k" "b k"] by (auto simp: compareFn_def Let_def)

lemma compareFn_desc: "compareFn js (k, desc) a b \<le> 0 \<longleftrightarrow> \<not> js_less js (a k) (b k)"
  using js_less_asym [of js "a k" "b k"] by (auto simp: compareFn_def Let_def)

lemma not_less_trans_numbers:
  "is_number u \<Longrightarrow> is_number v \<Longrightarrow> is_number w \<Longrightarrow>
     \<not> js_less js v u \<Longrightarrow> \<not> js_less js w v \<Longrightarrow> \<not> js_less js w u"
  by (cases u; cases v; cases w) (simp_all add: js_less_numbers)

lemma not_less_trans_strings:
  "is_string u \<Longrightarrow> is_string v \<Longrightarrow> is_string w \<Longrightarrow>
     \<not> js_less js v u \<Longrightarrow> \<not> js_less js w v \<Longrightarrow> \<not> js_less js w u"
  by (cases u; cases v; cases w) (auto simp: js_less_strings)

lemma sorted_asc:
  assumes "comparable k xs"
  shows "ascending js k (js_sort (compareFn js (k, asc)) xs)"
proof -
  let ?cmp = "compareFn js (k, asc)"
  have total: "\<not> ?cmp a b \<le> 0 \<Longrightarrow> ?cmp b a \<le> 0" for a b
    unfolding compareFn_asc using js_less_asym by blast
  have "sorted_wrt (\<lambda>a b. ?cmp a b \<le> 0) (js_sort ?cmp xs)"
  proof (cases "\<forall>r \<in> set xs. is_number (r k)")
    case True
    show ?thesis
    proof (rule sorted_wrt_js_sort [where A = "{r. is_number (r k)}"])
      show "set xs \<subseteq> {r. is_number (r k)}"
        using True by blast
    next
      fix a b c :: row
      assume "a \<in> {r. is_number (r k)}" "b \<in> {r. is_number (r k)}" "c \<in> {r. is_number (r k)}"
        "?cmp a b \<le> 0" "?cmp b c \<le> 0"
      then show "?cmp a c \<le> 0"
        unfolding compareFn_asc using not_less_trans_numbers [of "a k" "b k" "c k" js] by simp
    qed (rule total)
  next
    case False
    with assms have s: "\<forall>r \<in> set xs. is_string (r k)"
      by (simp add: comparable_def)
    show ?thesis
    proof (rule sorted_wrt_js_sort [where A = "{r. is_string (r k)}"])
      show "set xs \<subseteq> {r. is_string (r k)}"
        using s by blast
    next
      fix a b c :: row
      assume "a \<in> {r. is_string (r k)}" "b \<in> {r. is_string (r k)}" "c \<in> {r. is_string (r k)}"
        "?cmp a b \<le> 0" "?cmp b c \<le> 0"
      then show "?cmp a c \<le> 0"
        unfolding compareFn_asc using not_less_trans_strings [of "a k" "b k" "c k" js] by simp
    qed (rule total)
  qed
  then show ?thesis
    unfolding compareFn_asc ascending_def .
qed

lemma sorted_desc:
  assumes "comparable k xs"
  shows "descending js k (js_sort (compareFn js (k, desc)) xs)"
proof -
  let ?cmp = "compareFn js (k, desc)"
  have total: "\<not> ?cmp a b \<le> 0 \<Longrightarrow> ?cmp b a \<le> 0" for a b
    unfolding compareFn_desc using js_less_asym by blast
  have "sorted_wrt (\<lambda>a b. ?cmp a b \<le> 0) (js_sort ?cmp xs)"
  proof (cases "\<forall>r \<in> set xs. is_number (r k)")
    case True
    show ?thesis
    proof (rule sorted_wrt_js_sort [where A = "{r. is_number (r k)}"])
      show "set xs \<subseteq> {r. is_number (r k)}"
        using True by blast
    next
      fix a b c :: row
      assume "a \<in> {r. is_number (r k)}" "b \<in> {r. is_number (r k)}" "c \<in> {r. is_number (r k)}"
        "?cmp a b \<le> 0" "?cmp b c \<le> 0"
      then show "?cmp a c \<le> 0"
        unfolding compareFn_desc using not_less_trans_numbers [of "c k" "b k" "a k" js] by simp
    qed (rule total)
  next
    case False
    with assms have s: "\<forall>r \<in> set xs. is_string (r k)"
      by (simp add: comparable_def)
    show ?thesis
    proof (rule sorted_wrt_js_sort [where A = "{r. is_string (r k)}"])
      show "set xs \<subseteq> {r. is_string (r k)}"
        using s by blast
    next
      fix a b c :: row
      assume "a \<in> {r. is_string (r k)}" "b \<in> {r. is_string (r k)}" "c \<in> {r. is_string (r k)}"
        "?cmp a b \<le> 0" "?cmp b c \<le> 0"
      then show "?cmp a c \<le> 0"
        unfolding compareFn_desc using not_less_trans_strings [of "c k" "b k" "a k" js] by simp
    qed (rule total)
  qed
  then show ?thesis
    unfolding compareFn_desc descending_def .
qed


lemma sortedData_Some:
  "sortedData js h data (Some cfg) =
     (h\<lparr>arrays := (arrays h)(next_addr h := js_sort (compareFn js cfg) (arrays h data)),
        next_addr := Suc (next_addr h)\<rparr>, next_addr h)"
  by (simp add: sortedData_def spread_def Array_sort_def)

lemma rendered_rows_Some:
  "rendered_rows js h data (Some cfg) = js_sort (compareFn js cfg) (arrays h data)"
  by (simp add: rendered_rows_def sortedData_Some)

text \<open>
  C10, as stated, at a table whose second row has no price: for that row both \<open><\<close> and
  \<open>>\<close> are false against every other row, the comparator ties it with both
  neighbours, and after a click on the price column the rows stay in the order 30,
  \<open>undefined\<close>, 10, which is not ascending.
\<close>

theorem C10_undefined_cell_counterexample:
  "\<not> (\<forall>js h data k. data < next_addr h \<longrightarrow>
         ascending js k (rendered_rows js h data (handleSort k None)))"
proof
  assume a: "\<forall>js h data k. data < next_addr h \<longrightarrow>
         ascending js k (rendered_rows js h data (handleSort k None))"
  have "(0::nat) < next_addr gap_table"
    by (simp add: gap_table_def)
  with a have "ascending sample_builtins ''price''
      (rendered_rows sample_builtins gap_table 0 (handleSort ''price'' None))"
    by blast
  then show False
    by (simp add: ascending_def handleSort_def rendered_rows_Some gap_table_def js_sort_def
        compareFn_def js_less_def)
qed

text \<open>
  C10 (amended): with no sort column the rows are the input array itself; with a sort
  column they are a permutation of the input, whatever the values; when the values of
  the column are all numbers other than \<open>NaN\<close>, or all strings, the rows are in
  ascending order of the column after the first click on it and in descending order
  after a second click on the same column (a click on another column, or a third
  click, gives ascending order again); no array that existed before, the input among
  them, is changed.
\<close>

theorem C10_sortedData:
  assumes "data < next_addr h"
  shows "rendered_rows js h data None = arrays h data
       \<and> mset (rendered_rows js h data (Some (k, d))) = mset (arrays h data)
       \<and> (comparable k (arrays h data) \<longrightarrow>
             ascending js k (rendered_rows js h data (Some (k, asc)))
           \<and> descending js k (rendered_rows js h data (Some (k, desc))))
       \<and> handleSort k None = Some (k, asc)
       \<and> (k' \<noteq> k \<longrightarrow> handleSort k (Some (k', d)) = Some (k, asc))
       \<and> handleSort k (Some (k, asc)) = Some (k, desc)
       \<and> handleSort k (Some (k, desc)) = Some (k, asc)
       \<and> (\<forall>a < next_addr h. arrays (fst (sortedData js h data sortConfig)) a = arrays h a)"
proof -
  have 1: "rendered_rows js h data None = arrays h data"
    by (simp add: rendered_rows_def sortedData_def)
  have 2: "mset (rendered_rows js h data (Some (k, d))) = mset (arrays h data)"
    by (simp add: rendered_rows_Some mset_js_sort)
  have 3: "comparable k (arrays h data) \<longrightarrow>
             ascending js k (rendered_rows js h data (Some (k, asc)))
           \<and> descending js k (rendered_rows js h data (Some (k, desc)))"
    by (simp add: rendered_rows_Some sorted_asc sorted_desc)
  have 5: "handleSort k None = Some (k, asc)"
    "k' \<noteq> k \<longrightarrow> handleSort k (Some (k', d)) = Some (k, asc)"
    "handleSort k (Some (k, asc)) = Some (k, desc)"
    "handleSort k (Some (k, desc)) = Some (k, asc)"
    by (simp_all add: handleSort_def)
  have 6: "\<forall>a < next_addr h. arrays (fst (sortedData js h data sortConfig)) a = arrays h a"
    by (cases sortConfig) (simp_all add: sortedData_Some, simp add: sortedData_def)
  from 1 2 3 5 6 show ?thesis
    by blast
qed

theorem C10_sortedData_witness:
  "(0::nat) < next_addr price_table
 \<and> comparable ''price'' (arrays price_table 0)
 \<and> comparable ''name'' (arrays price_table 0)
 \<and> rendered_rows sample_builtins price_table 0 None = arrays price_table 0
 \<and> ascending sample_builtins ''price''
      (rendered_rows sample_builtins price_table 0 (handleSort ''price'' None))
 \<and> map (\<lambda>r. r ''price'')
      (rendered_rows sample_builtins price_table 0 (handleSort ''price'' None))
      = [JNumber 10, JNumber 20, JNumber 30]
 \<and> map (\<lambda>r. r ''price'')
      (rendered_rows sample_builtins price_table 0
         (handleSort ''price'' (handleSort ''price'' None)))
      = [JNumber 30, JNumber 20, JNumber 10]
 \<and> ascending sample_builtins ''name''
      (rendered_rows sample_builtins price_table 0 (handleSort ''name'' None))
 \<and> map (\<lambda>r. r ''name'')
      (rendered_rows sample_builtins price_table 0 (handleSort ''name'' None))
      = [JString ''dap'', JString ''potash'', JString ''urea'']
 \<and> arrays (fst (sortedData sample_builtins price_table 0 (handleSort ''price'' None))) 0
      = arrays price_table 0"
proof -
  have a: "(0::nat) < next_addr price_table"
    by (simp add: price_table_def)
  have c: "comparable ''price'' (arrays price_table 0)" "comparable ''name'' (arrays price_table 0)"
    by (simp_all add: comparable_def price_table_def)
  note t = C10_sortedData [OF a, of sample_builtins "''price''" asc "''name''"
      "Some (''price'', asc)"]
  note u = C10_sortedData [OF a, of sample_builtins "''name''" asc "''price''"
      "Some (''price'', asc)"]
  have h1: "handleSort ''price'' None = Some (''price'', asc)"
    using t by simp
  have h2: "handleSort ''price'' (Some (''price'', asc)) = Some (''price'', desc)"
    using t by simp
  have h3: "handleSort ''name'' None = Some (''name'', asc)"
    using u by simp
  have o1: "ascending sample_builtins ''price''
      (rendered_rows sample_builtins price_table 0 (Some (''price'', asc)))"
    using t c by blast
  have o2: "ascending sample_builtins ''name''
      (rendered_rows sample_builtins price_table 0 (Some (''name'', asc)))"
    using u c by blast
  have e1: "map (\<lambda>r. r ''price'')
      (rendered_rows sample_builtins price_table 0 (Some (''price'', asc)))
      = [JNumber 10, JNumber 20, JNumber 30]"
    by (simp add: rendered_rows_Some price_table_def js_sort_def compareFn_def js_less_def)
  have e2: "map (\<lambda>r. r ''price'')
      (rendered_rows sample_builtins price_table 0 (Some (''price'', desc)))
      = [JNumber 30, JNumber 20, JNumber 10]"
    by (simp add: rendered_rows_Some price_table_def js_sort_def compareFn_def js_less_def)
  have e3: "map (\<lambda>r. r ''name'')
      (rendered_rows sample_builtins price_table 0 (Some (''name'', asc)))
      = [JString ''dap'', JString ''potash'', JString ''urea'']"
    by (simp add: rendered_rows_Some price_table_def js_sort_def compareFn_def js_less_def
        less_char_def)
  have n: "rendered_rows sample_builtins price_table 0 None = arrays price_table 0"
    "arrays (fst (sortedData sample_builtins price_table 0 (Some (''price'', asc)))) 0
      = arrays price_table 0"
    using t a by simp_all
  from a c n o1 o2 e1 e2 e3 show ?thesis
    unfolding h1 h2 h3 by blast
qed

subsection \<open>Price management\<close>

lemma handleEdit_api_calls [simp]: "api_calls (handleEdit price s) = api_calls s"
  by (simp add: handleEdit_def)

lemma handleEdit_error_message [simp]: "error_message (handleEdit price s) = error_message s"
  by (simp add: handleEdit_def)

lemma existing_price_Some:
  "existing_price d ps = Some p \<Longrightarrow> p \<in> set ps \<and> Some (sku_id (pp_sku p)) = p_sku_id d"
  unfolding existing_price_def find_Some_iff by (auto simp: in_set_conv_nth)

text \<open>
  C5, as stated, at a list of loaded prices that holds no price of the submitted SKU
  (here only a price of another product): the handler sets the message and nothing
  else, and no timer is pending; the form is not in edit mode.
\<close>

theorem C5_no_loaded_price_counterexample:
  "\<not> (\<forall>errs msg variables results s.
        overlap_error \<in> set errs \<and> pending_timers s = [] \<longrightarrow>
        error_message (createPriceMutation_onError (ArrayData errs) msg variables results s)
          = overlap_message
      \<and> (\<exists>p. editingPrice (fire_timers
               (createPriceMutation_onError (ArrayData errs) msg variables results s)) = Some p))"
proof
  assume a: "\<forall>errs msg variables results s.
        overlap_error \<in> set errs \<and> pending_timers s = [] \<longrightarrow>
        error_message (createPriceMutation_onError (ArrayData errs) msg variables results s)
          = overlap_message
      \<and> (\<exists>p. editingPrice (fire_timers
               (createPriceMutation_onError (ArrayData errs) msg variables results s)) = Some p)"
  let ?d = "\<lparr>p_sku_id = Some 5, p_price = Some (241 / 2), p_district_id = None\<rparr>"
  have h: "overlap_error \<in> set [overlap_error] \<and> pending_timers publish_modal = []"
    by (simp add: publish_modal_def)
  have e: "editingPrice (fire_timers (createPriceMutation_onError (ArrayData [overlap_error])
             ''Request failed'' (Some ?d) (Some [dap_north]) publish_modal)) = None"
    by (simp add: createPriceMutation_onError_def fire_timers_def publish_modal_def
        dap_north_def)
  from a h have "\<exists>p. editingPrice (fire_timers (createPriceMutation_onError
             (ArrayData [overlap_error]) ''Request failed'' (Some ?d) (Some [dap_north])
             publish_modal)) = Some p"
    by blast
  with e show False
    by simp
qed

text \<open>
  C5 (amended): when the create request fails with an error list that contains the
  overlap message of the server, the handler sends no request (neither at once nor
  when its timer fires) and sets the message for the user. When the mutation variables
  and the loaded published prices are there and the list holds a price of the submitted
  SKU, the handler schedules \<open>handleEdit\<close> for the first such price, and once that timer
  has fired the form is in edit mode for it. Otherwise only the message is set and the
  form stays as it was.
\<close>

theorem C5_overlap_error:
  assumes "overlap_error \<in> set errs" and "pending_timers s = []"
  shows "error_message (createPriceMutation_onError (ArrayData errs) msg variables results s)
           = overlap_message
       \<and> api_calls (createPriceMutation_onError (ArrayData errs) msg variables results s)
           = api_calls s
       \<and> editingPrice (createPriceMutation_onError (ArrayData errs) msg variables results s)
           = editingPrice s
       \<and> api_calls (fire_timers
             (createPriceMutation_onError (ArrayData errs) msg variables results s))
           = api_calls s
       \<and> error_message (fire_timers
             (createPriceMutation_onError (ArrayData errs) msg variables results s))
           = overlap_message
       \<and> (\<forall>d ps p. variables = Some d \<and> results = Some ps \<and> existing_price d ps = Some p \<longrightarrow>
             fire_timers (createPriceMutation_onError (ArrayData errs) msg variables results s)
               = (handleEdit p (s\<lparr>error_message := overlap_message\<rparr>))
             \<and> editingPrice (fire_timers
                   (createPriceMutation_onError (ArrayData errs) msg variables results s)) = Some p
             \<and> isCreateModalOpen (fire_timers
                   (createPriceMutation_onError (ArrayData errs) msg variables results s))
             \<and> p \<in> set ps \<and> Some (sku_id (pp_sku p)) = p_sku_id d)
       \<and> (variables = None \<or> results = None
            \<or> (\<exists>d ps. variables = Some d \<and> results = Some ps \<and> existing_price d ps = None) \<longrightarrow>
             fire_timers (createPriceMutation_onError (ArrayData errs) msg variables results s)
               = s\<lparr>error_message := overlap_message\<rparr>)"
  using assms
  by (auto simp: createPriceMutation_onError_def fire_timers_def existing_price_def
      handleEdit_def Let_def dest: existing_price_Some [unfolded existing_price_def]
      split: option.splits)


theorem C5_overlap_error_witness:
  "overlap_error \<in> set [overlap_error] \<and> pending_timers publish_modal = []
 \<and> error_message (createPriceMutation_onError (ArrayData [overlap_error]) ''Request failed''
        (Some \<lparr>p_sku_id = Some 5, p_price = Some (241 / 2), p_district_id = None\<rparr>)
        (Some [dap_north, urea_north]) publish_modal) = overlap_message
 \<and> editingPrice (fire_timers (createPriceMutation_onError (ArrayData [overlap_error])
        ''Request failed''
        (Some \<lparr>p_sku_id = Some 5, p_price = Some (241 / 2), p_district_id = None\<rparr>)
        (Some [dap_north, urea_north]) publish_modal)) = Some urea_north
 \<and> api_calls (fire_timers (createPriceMutation_onError (ArrayData [overlap_error])
        ''Request failed''
        (Some \<lparr>p_sku_id = Some 5, p_price = Some (241 / 2), p_district_id = None\<rparr>)
        (Some [dap_north, urea_north]) publish_modal)) = []"
proof -
  let ?d = "\<lparr>p_sku_id = Some 5, p_price = Some (241 / 2), p_district_id = None\<rparr>"
  have a: "overlap_error \<in> set [overlap_error]"
    by simp
  have b: "pending_timers publish_modal = []"
    by (simp add: publish_modal_def)
  have e: "existing_price ?d [dap_north, urea_north] = Some urea_north"
    by (simp add: existing_price_def dap_north_def urea_north_def)
  have c: "api_calls publish_modal = []"
    by (simp add: publish_modal_def)
  from C5_overlap_error [OF a b, of "''Request failed''" "Some ?d" "Some [dap_north, urea_north]"]
    a b e c
  show ?thesis
    by (simp add: handleEdit_def)
qed

subsection \<open>Compliance as shown\<close>

lemma compliant_count_map:
  "length (filter compliant ps) = length (filter id (map compliant ps))"
  by (induction ps) auto

text \<open>
  C7, as stated, at a price the server flags compliant with a markup of 12: the status
  badge says Compliant, and the markup cell is red, by the threshold of 10 that the
  frontend applies itself.
\<close>

theorem C7_markup_threshold_counterexample:
  "\<not> (\<forall>item. (markup_class item = ''text-red-600'') = (\<not> compliant item))"
proof
  assume "\<forall>item. (markup_class item = ''text-red-600'') = (\<not> compliant item)"
  then have "(markup_class urea_north = ''text-red-600'') = (\<not> compliant urea_north)"
    by blast
  then show False
    by (simp add: markup_class_def urea_north_def)
qed

text \<open>
  C7 (amended): the compliance verdict of a price is the flag received: the badge is
  Compliant exactly when \<open>compliant\<close> is true. The markup shown is the received one,
  to one decimal, and it is coloured by a rule of the frontend, red above 10 and green
  otherwise, whatever the flag. The statistics of the compliance page are computed in
  the frontend from the received flags alone: the total is the number of prices, the
  compliant count the number of true flags, the non-compliant count their difference,
  and the rate is 0 when there are no prices and otherwise the quotient of the
  compliant count by the total, times 100, as double precision computes them.
\<close>

theorem C7_compliance_display:
  "compliance_badge item =
     (if compliant item then (success, ''Compliant'') else (danger, ''Non-compliant''))
 \<and> ((markup_class item = ''text-red-600'') = (markup_percentage item > 10))
 \<and> markup_cell item =
      (if markup_percentage item > 10 then ''text-red-600'' else ''text-green-600'',
       toFixed1 (markup_percentage item))
 \<and> totalPrices results = int (length (prices_of results))
 \<and> compliantPrices results = int (length (filter id (map compliant (prices_of results))))
 \<and> compliantPrices results + nonCompliantPrices results = totalPrices results
 \<and> 0 \<le> compliantPrices results \<and> 0 \<le> nonCompliantPrices results
 \<and> complianceRate ops None = 0
 \<and> complianceRate ops (Some []) = 0
 \<and> (totalPrices results = 0 \<longrightarrow> complianceRate ops results = 0)
 \<and> (totalPrices results > 0 \<longrightarrow>
       complianceRate ops results =
         js_times ops
           (js_divide ops (of_int (compliantPrices results)) (of_int (totalPrices results)))
           100)
 \<and> (map compliant ps = map compliant qs \<longrightarrow>
       totalPrices (Some ps) = totalPrices (Some qs)
     \<and> compliantPrices (Some ps) = compliantPrices (Some qs)
     \<and> nonCompliantPrices (Some ps) = nonCompliantPrices (Some qs)
     \<and> complianceRate ops (Some ps) = complianceRate ops (Some qs))"
proof -
  have le: "compliantPrices results \<le> totalPrices results"
    by (simp add: compliantPrices_def totalPrices_def)
  have nn: "0 \<le> compliantPrices results"
    by (simp add: compliantPrices_def)
  have e0: "complianceRate ops None = 0" "complianceRate ops (Some []) = 0"
    by (simp_all add: complianceRate_def totalPrices_def prices_of_def)
  have z: "totalPrices results = 0 \<longrightarrow> complianceRate ops results = 0"
    by (simp add: complianceRate_def)
  have p: "totalPrices results > 0 \<longrightarrow>
       complianceRate ops results =
         js_times ops
           (js_divide ops (of_int (compliantPrices results)) (of_int (totalPrices results)))
           100"
    by (simp add: complianceRate_def)
  have dep: "map compliant ps = map compliant qs \<longrightarrow>
       totalPrices (Some ps) = totalPrices (Some qs)
     \<and> compliantPrices (Some ps) = compliantPrices (Some qs)
     \<and> nonCompliantPrices (Some ps) = nonCompliantPrices (Some qs)
     \<and> complianceRate ops (Some ps) = complianceRate ops (Some qs)"
  proof
    assume m: "map compliant ps = map compliant qs"
    then have l: "length ps = length qs"
      by (rule map_eq_imp_length_eq)
    have c: "length (filter compliant ps) = length (filter compliant qs)"
      unfolding compliant_count_map using m by (rule arg_cong)
    show "totalPrices (Some ps) = totalPrices (Some qs)
     \<and> compliantPrices (Some ps) = compliantPrices (Some qs)
     \<and> nonCompliantPrices (Some ps) = nonCompliantPrices (Some qs)
     \<and> complianceRate ops (Some ps) = complianceRate ops (Some qs)"
      using l c
      by (simp add: totalPrices_def compliantPrices_def nonCompliantPrices_def
          complianceRate_def prices_of_def)
  qed
  have b: "compliance_badge item =
     (if compliant item then (success, ''Compliant'') else (danger, ''Non-compliant''))"
    by (simp add: compliance_badge_def)
  have mk: "(markup_class item = ''text-red-600'') = (markup_percentage item > 10)"
    by (simp add: markup_class_def)
  have mc: "markup_cell item =
      (if markup_percentage item > 10 then ''text-red-600'' else ''text-green-600'',
       toFixed1 (markup_percentage item))"
    by (simp add: markup_cell_def markup_class_def)
  have tp: "totalPrices results = int (length (prices_of results))"
    by (simp add: totalPrices_def)
  have cp: "compliantPrices results = int (length (filter id (map compliant (prices_of results))))"
    unfolding compliantPrices_def by (simp only: compliant_count_map)
  have sm: "compliantPrices results + nonCompliantPrices results = totalPrices results"
    by (simp add: nonCompliantPrices_def)
  have n2: "0 \<le> nonCompliantPrices results"
    using le by (simp add: nonCompliantPrices_def)
  from b mk mc tp cp sm nn n2 e0 z p dep show ?thesis
    by blast
qed

theorem C7_compliance_display_witness:
  "compliance_badge urea_north = (success, ''Compliant'')
 \<and> markup_class urea_north = ''text-red-600''
 \<and> markup_cell urea_north = (''text-red-600'', 120)
 \<and> totalPrices (Some [urea_north, dap_north]) = 2
 \<and> compliantPrices (Some [urea_north, dap_north]) = 1
 \<and> nonCompliantPrices (Some [urea_north, dap_north]) = 1
 \<and> complianceRate unrounded_ops (Some [urea_north, dap_north]) = 50
 \<and> totalPrices (Some []) = 0
 \<and> complianceRate unrounded_ops (Some []) = 0
 \<and> map compliant [urea_north\<lparr>markup_percentage := 5\<rparr>, dap_north]
      = map compliant [urea_north, dap_north]
 \<and> complianceRate unrounded_ops (Some [urea_north\<lparr>markup_percentage := 5\<rparr>, dap_north])
      = complianceRate unrounded_ops (Some [urea_north, dap_north])"
proof -
  note t = C7_compliance_display [of urea_north "Some [urea_north, dap_north]" unrounded_ops
      "[urea_north\<lparr>markup_percentage := 5\<rparr>, dap_north]" "[urea_north, dap_north]"]
  note t0 = C7_compliance_display [of urea_north "Some []" unrounded_ops "[]" "[]"]
  have c: "compliant urea_north" "\<not> compliant dap_north" "markup_percentage urea_north = 12"
    by (simp_all add: urea_north_def dap_north_def)
  have e: "map compliant [urea_north\<lparr>markup_percentage := 5\<rparr>, dap_north]
      = map compliant [urea_north, dap_north]"
    by simp
  have n: "totalPrices (Some [urea_north, dap_north]) = 2"
    "compliantPrices (Some [urea_north, dap_north]) = 1"
    using t c by (simp_all add: prices_of_def)
  have m: "nonCompliantPrices (Some [urea_north, dap_north]) = 1"
    using t n by simp
  have r: "complianceRate unrounded_ops (Some [urea_north, dap_north]) = 50"
    using t n by (simp add: unrounded_ops_def)
  have z: "totalPrices (Some []) = 0"
    using t0 by (simp add: prices_of_def)
  have z': "complianceRate unrounded_ops (Some []) = 0"
    using t0 z by blast
  have q: "complianceRate unrounded_ops (Some [urea_north\<lparr>markup_percentage := 5\<rparr>, dap_north])
      = complianceRate unrounded_ops (Some [urea_north, dap_north])"
    using t e by blast
  have f: "toFixed1 12 = 120"
    by (simp add: toFixed1_def floor_eq_iff)
  have k: "markup_cell urea_north = (''text-red-600'', 120)"
    using t c f by simp
  have b: "compliance_badge urea_north = (success, ''Compliant'')"
    "markup_class urea_north = ''text-red-600''"
    using t c by simp_all
  from b k n m r z z' e q show ?thesis
    by blast
qed

subsection \<open>The publish form\<close>

lemma toString_nonempty:
  "\<not> is_empty v \<Longrightarrow> \<exists>str. toString js v = Inr str"
  by (cases v) simp_all

lemma validate_passes:
  "validate js data = no_errors \<longleftrightarrow>
     \<not> is_empty (fd_sku_id data) \<and> \<not> is_empty (fd_price data)
   \<and> (\<forall>x. valueNumber js (fd_price data) = Some x \<longrightarrow> \<not> x < 1 / 100)"
  by (auto simp: validate_def no_errors_def validate_sku_id_def validate_price_def
      split: option.splits)

lemma district_conversion:
  "(if truthy d then map_sum id (\<lambda>x. Some (parseInt js x)) (toString js d) else Inr None)
     = Inr (if truthy d then Some (parseInt js (case d of FString str \<Rightarrow> str
                                                  | FNumber x \<Rightarrow> numberToString js x
                                                  | FUndefined \<Rightarrow> []))
            else None)"
  by (cases d) simp_all

text \<open>
  C8: a submission with no product selected fails validation with the message
  \<open>Please select a product\<close>, one with a price below 0.01 fails with
  \<open>Price must be greater than 0\<close>, and neither sends a request. When validation
  passes, exactly one request is sent (create, or update when a price is being
  edited), carrying \<open>parseInt\<close> of the SKU field, \<open>parseFloat\<close> of the price field,
  and for the district \<open>parseInt\<close> of the field when it is given (truthy) and
  \<open>undefined\<close> otherwise.
\<close>

theorem C8_publish_form:
  "(is_empty (fd_sku_id (form_values s)) \<longrightarrow>
      (\<exists>s'. handleSubmit js s = Inr s' \<and> api_calls s' = api_calls s
          \<and> err_sku_id (formState_errors s') = Some ''Please select a product''))
 \<and> (\<not> is_empty (fd_price (form_values s))
      \<and> valueNumber js (fd_price (form_values s)) = Some x \<and> x < 1 / 100 \<longrightarrow>
      (\<exists>s'. handleSubmit js s = Inr s' \<and> api_calls s' = api_calls s
          \<and> err_price (formState_errors s') = Some ''Price must be greater than 0''))
 \<and> (validate js (form_values s) = no_errors \<longrightarrow>
      (\<exists>sku price.
          toString js (fd_sku_id (form_values s)) = Inr sku
        \<and> toString js (fd_price (form_values s)) = Inr price
        \<and> handleSubmit js s =
            Inr (s\<lparr>formState_errors := no_errors,
                   api_calls := api_calls s @
                     [(case editingPrice s of
                         None \<Rightarrow> createPublishedPrice
                       | Some editing \<Rightarrow> updatePublishedPrice (pp_id editing))
                        \<lparr>p_sku_id = parseInt js sku,
                         p_price = parseFloat js price,
                         p_district_id =
                           (if truthy (fd_district_id (form_values s))
                            then Some (parseInt js
                                   (case fd_district_id (form_values s) of
                                      FString str \<Rightarrow> str
                                    | FNumber d \<Rightarrow> numberToString js d
                                    | FUndefined \<Rightarrow> []))
                            else None)\<rparr>]\<rparr>)))"
proof (intro conjI impI)
  assume "is_empty (fd_sku_id (form_values s))"
  then show "\<exists>s'. handleSubmit js s = Inr s' \<and> api_calls s' = api_calls s
          \<and> err_sku_id (formState_errors s') = Some ''Please select a product''"
    by (simp add: handleSubmit_def validate_def no_errors_def validate_sku_id_def Let_def)
next
  assume "\<not> is_empty (fd_price (form_values s))
      \<and> valueNumber js (fd_price (form_values s)) = Some x \<and> x < 1 / 100"
  then show "\<exists>s'. handleSubmit js s = Inr s' \<and> api_calls s' = api_calls s
          \<and> err_price (formState_errors s') = Some ''Price must be greater than 0''"
    by (simp add: handleSubmit_def validate_def no_errors_def validate_price_def Let_def)
next
  let ?d = "form_values s"
  assume v: "validate js ?d = no_errors"
  then have ne: "\<not> is_empty (fd_sku_id ?d)" "\<not> is_empty (fd_price ?d)"
    by (simp_all add: validate_passes)
  obtain sku where sku: "toString js (fd_sku_id ?d) = Inr sku"
    using toString_nonempty [OF ne(1)] by blast
  obtain price where price: "toString js (fd_price ?d) = Inr price"
    using toString_nonempty [OF ne(2)] by blast
  have "handleSubmit js s =
            Inr (s\<lparr>formState_errors := no_errors,
                   api_calls := api_calls s @
                     [(case editingPrice s of
                         None \<Rightarrow> createPublishedPrice
                       | Some editing \<Rightarrow> updatePublishedPrice (pp_id editing))
                        \<lparr>p_sku_id = parseInt js sku,
                         p_price = parseFloat js price,
                         p_district_id =
                           (if truthy (fd_district_id ?d)
                            then Some (parseInt js
                                   (case fd_district_id ?d of
                                      FString str \<Rightarrow> str
                                    | FNumber d \<Rightarrow> numberToString js d
                                    | FUndefined \<Rightarrow> []))
                            else None)\<rparr>]\<rparr>)"
    using v sku price
    by (simp add: handleSubmit_def onSubmit_def processedData_def district_conversion Let_def
        split: option.splits)
  with sku price show "\<exists>sku price.
          toString js (fd_sku_id ?d) = Inr sku
        \<and> toString js (fd_price ?d) = Inr price
        \<and> handleSubmit js s =
            Inr (s\<lparr>formState_errors := no_errors,
                   api_calls := api_calls s @
                     [(case editingPrice s of
                         None \<Rightarrow> createPublishedPrice
                       | Some editing \<Rightarrow> updatePublishedPrice (pp_id editing))
                        \<lparr>p_sku_id = parseInt js sku,
                         p_price = parseFloat js price,
                         p_district_id =
                           (if truthy (fd_district_id ?d)
                            then Some (parseInt js
                                   (case fd_district_id ?d of
                                      FString str \<Rightarrow> str
                                    | FNumber d \<Rightarrow> numberToString js d
                                    | FUndefined \<Rightarrow> []))
                            else None)\<rparr>]\<rparr>)"
    by blast
qed

theorem C8_publish_form_witness:
  "handleSubmit sample_builtins publish_modal =
     Inr (publish_modal\<lparr>api_calls :=
            [createPublishedPrice
               \<lparr>p_sku_id = Some 5, p_price = Some (241 / 2), p_district_id = None\<rparr>]\<rparr>)
 \<and> (\<exists>s'. handleSubmit sample_builtins
            (publish_modal\<lparr>form_values := (form_values publish_modal)\<lparr>fd_sku_id := FString []\<rparr>\<rparr>)
          = Inr s' \<and> api_calls s' = []
        \<and> err_sku_id (formState_errors s') = Some ''Please select a product'')
 \<and> (\<exists>s'. handleSubmit sample_builtins
            (publish_modal\<lparr>form_values :=
               (form_values publish_modal)\<lparr>fd_price := FString ''0.005''\<rparr>\<rparr>)
          = Inr s' \<and> api_calls s' = []
        \<and> err_price (formState_errors s') = Some ''Price must be greater than 0'')"
proof -
  let ?s1 = "publish_modal\<lparr>form_values := (form_values publish_modal)\<lparr>fd_sku_id := FString []\<rparr>\<rparr>"
  let ?s2 = "publish_modal\<lparr>form_values :=
               (form_values publish_modal)\<lparr>fd_price := FString ''0.005''\<rparr>\<rparr>"
  have v: "validate sample_builtins (form_values publish_modal) = no_errors"
    by (simp add: validate_def validate_sku_id_def validate_price_def sample_builtins_def
        publish_modal_def no_errors_def)
  have a: "handleSubmit sample_builtins publish_modal =
     Inr (publish_modal\<lparr>api_calls :=
            [createPublishedPrice
               \<lparr>p_sku_id = Some 5, p_price = Some (241 / 2), p_district_id = None\<rparr>]\<rparr>)"
    using C8_publish_form [of publish_modal sample_builtins 0] v
    by (simp add: publish_modal_def sample_builtins_def)
  have b: "\<exists>s'. handleSubmit sample_builtins ?s1 = Inr s' \<and> api_calls s' = []
        \<and> err_sku_id (formState_errors s') = Some ''Please select a product''"
    using C8_publish_form [of ?s1 sample_builtins 0]
    by (simp add: publish_modal_def)
  have c: "\<exists>s'. handleSubmit sample_builtins ?s2 = Inr s' \<and> api_calls s' = []
        \<and> err_price (formState_errors s') = Some ''Price must be greater than 0''"
    using C8_publish_form [of ?s2 sample_builtins "1 / 200"]
    by (simp add: publish_modal_def sample_builtins_def)
  from a b c show ?thesis
    by blast
qed

subsection \<open>Complaint management\<close>

lemma render_card_throws: "render_card c = Inl TypeError"
  by (simp add: render_card_def get_full_name_def)

lemma render_cards_Cons: "render_cards (c # cs) = Inl TypeError"
  by (simp add: render_card_throws)



















end
